theory Spec2Isabelle
  imports Complex_Main "HOL-Library.Monad_Syntax"
begin

section \<open>JavaScript values, requests and responses\<close>

text \<open>
  The router of \<^verbatim>\<open>routes/open/birds\<close> reads JSON request bodies and writes JSON
  responses. A value is a JSON value or \<^verbatim>\<open>undefined\<close>, which is what reading an
  absent property gives. An object is the list of its own properties; where a key is
  listed twice, the first entry is the property.
\<close>

datatype json =
    JUndefined
  | JNull
  | JBool bool
  | JNum rat
  | JStr string
  | JArr "json list"
  | JObj "(string \<times> json) list"

text \<open>\<^verbatim>\<open>Array.isArray(v)\<close>\<close>

fun isArray :: "json \<Rightarrow> bool" where
  "isArray (JArr xs) = True"
| "isArray v = False"

text \<open>\<^verbatim>\<open>obj.k\<close> on an object given by its properties.\<close>

definition js_get :: "(string \<times> json) list \<Rightarrow> string \<Rightarrow> json" where
  "js_get obj k = (case map_of obj k of None \<Rightarrow> JUndefined | Some v \<Rightarrow> v)"

text \<open>Of a request the handlers read the route parameters and the body, which the JSON
  body parser leaves as an object.\<close>

record request =
  params :: "(string \<times> string) list"
  body :: "(string \<times> json) list"

text \<open>\<^verbatim>\<open>request.params.k\<close>: route parameters are strings.\<close>

definition js_param :: "request \<Rightarrow> string \<Rightarrow> json" where
  "js_param request k = (case map_of (params request) k of None \<Rightarrow> JUndefined | Some s \<Rightarrow> JStr s)"

record response =
  status :: nat
  payload :: json

text \<open>\<^verbatim>\<open>response.json(v)\<close> and \<^verbatim>\<open>response.send(v)\<close> answer with status 200,
  \<^verbatim>\<open>response.status(n).send(v)\<close> with status \<open>n\<close>.\<close>

definition send_json :: "json \<Rightarrow> response" where
  "send_json v = \<lparr>status = 200, payload = v\<rparr>"

definition status_send :: "nat \<Rightarrow> json \<Rightarrow> response" where
  "status_send n v = \<lparr>status = n, payload = v\<rparr>"

subsection \<open>Decimal numerals\<close>

text \<open>The template literals \<^verbatim>\<open>`$${i + 1}`\<close> and \<^verbatim>\<open>`${result.rowCount}`\<close> print a
  non-negative integer in decimal.\<close>

definition digit_char :: "nat \<Rightarrow> char" where
  "digit_char d = ''0123456789'' ! d"

function show_nat :: "nat \<Rightarrow> string" where
  "show_nat n = (if n < 10 then [digit_char n] else show_nat (n div 10) @ [digit_char (n mod 10)])"
  by pat_completeness auto
termination
  by (relation "measure id") auto

declare show_nat.simps [simp del]

text \<open>Reading a decimal numeral back: the digits, and the number they denote.\<close>

definition is_digit :: "char \<Rightarrow> bool" where
  "is_digit c = (c \<in> set ''0123456789'')"

definition digit_val :: "char \<Rightarrow> nat" where
  "digit_val c = length (takeWhile (\<lambda>d. d \<noteq> c) ''0123456789'')"

definition read_nat :: "string \<Rightarrow> nat" where
  "read_nat ds = foldl (\<lambda>a c. 10 * a + digit_val c) 0 ds"

subsection \<open>The connection pool, as the handlers see it\<close>

text \<open>
  \<^verbatim>\<open>pool.query(text, values)\<close> returns a promise. It resolves with a result that
  carries \<^verbatim>\<open>rowCount\<close> and \<^verbatim>\<open>rows\<close>, or rejects with an error of which the handlers
  read \<^verbatim>\<open>detail\<close> only. The pool is imported from \<^verbatim>\<open>core/utilities\<close>; the handlers
  take it as a parameter \<open>pool\<close> that maps the statement text, the values and the state
  of the store to the reply and the next state.
\<close>

record pg_error =
  code :: string
  detail :: "string option"

record query_result =
  rowCount :: nat
  rows :: "json list"

datatype pg_reply = Resolved query_result | Rejected pg_error

type_synonym 'db pool = "string \<Rightarrow> json list \<Rightarrow> 'db \<Rightarrow> pg_reply \<times> 'db"

text \<open>\<^verbatim>\<open>'Error: ' + err.detail\<close>: an absent \<^verbatim>\<open>detail\<close> is printed as
  \<^verbatim>\<open>undefined\<close>.\<close>

definition error_message :: "pg_error \<Rightarrow> json" where
  "error_message err =
     JObj [(''message'', JStr (''Error: '' @ (case detail err of None \<Rightarrow> ''undefined'' | Some d \<Rightarrow> d)))]"

subsection \<open>What a request does\<close>

text \<open>
  Serving a request ends in a response or in an exception thrown out of the handler. On
  the way it may write to the console (\<^verbatim>\<open>console.error\<close>) and issue statements to
  the pool; both are recorded, in order.
\<close>

datatype js_error = TypeError

datatype outcome = Responded response | Threw js_error

datatype log_entry = LogText string | LogError pg_error

record 'db run =
  result :: outcome
  console :: "log_entry list"
  issued :: "(string \<times> json list) list"
  store :: 'db

section \<open>Middleware\<close>

datatype mw_result = Next | Halt "log_entry list" response

definition mwValidBirdsBody :: "request \<Rightarrow> mw_result" where
  "mwValidBirdsBody request =
     (if isArray (js_get (body request) ''birds'') then Next
      else Halt [LogText ''Invalid or missing Birds'']
             (status_send 400
                (JObj [(''message'', JStr ''Invalid or missing Bird - please refer to documentation'')])))"

section \<open>Endpoint handlers\<close>

subsection \<open>GET /all\<close>

definition get_all :: "'db pool \<Rightarrow> request \<Rightarrow> 'db \<Rightarrow> 'db run" where
  "get_all pool request db =
     (let theQuery = ''SELECT * FROM Birds'' in
      case pool theQuery [] db of
        (Resolved res, db') \<Rightarrow>
          \<lparr>result = Responded
              (if rowCount res \<ge> 1 then send_json (JArr (rows res))
               else status_send 404 (JObj [(''message'', JStr ''No birds were found in the database'')])),
           console = [], issued = [(theQuery, [])], store = db'\<rparr>
      | (Rejected err, db') \<Rightarrow>
          \<lparr>result = Responded
              (status_send 500 (JObj [(''message'', JStr ''server error - contact support'')])),
           console = [LogText ''DB Query error on GET all'', LogError err],
           issued = [(theQuery, [])], store = db'\<rparr>)"

subsection \<open>Placeholder lists\<close>

text \<open>\<^verbatim>\<open>birdNames.map((_, i) => `$${i + 1}`)\<close>, from index \<open>i\<close> on, and
  \<^verbatim>\<open>.join(',')\<close>.\<close>

fun map_placeholder :: "nat \<Rightarrow> json list \<Rightarrow> string list" where
  "map_placeholder i [] = []"
| "map_placeholder i (x # xs) = (''$'' @ show_nat (i + 1)) # map_placeholder (Suc i) xs"

fun join :: "string \<Rightarrow> string list \<Rightarrow> string" where
  "join sep [] = []"
| "join sep [x] = x"
| "join sep (x # y # ys) = x @ sep @ join sep (y # ys)"

definition placeholders :: "json list \<Rightarrow> string" where
  "placeholders birdNames = join '','' (map_placeholder 0 birdNames)"

subsection \<open>GET /\<close>

text \<open>Calling \<^verbatim>\<open>.map\<close> on a value that is not an array throws a \<^verbatim>\<open>TypeError\<close>:
  \<^verbatim>\<open>undefined\<close> and \<^verbatim>\<open>null\<close> have no properties, and no other JSON value has a
  function under \<^verbatim>\<open>map\<close>.\<close>

definition select_text :: "json list \<Rightarrow> string" where
  "select_text birdNames =
     ''SELECT * FROM Birds WHERE Formatted_Com_Name IN ('' @ placeholders birdNames @ '');''"

definition get_by_names :: "'db pool \<Rightarrow> request \<Rightarrow> 'db \<Rightarrow> 'db run" where
  "get_by_names pool request db =
     (case js_get (body request) ''birdNames'' of
        JArr birdNames \<Rightarrow>
          (let theQuery = select_text birdNames in
           case pool theQuery birdNames db of
             (Resolved res, db') \<Rightarrow>
               \<lparr>result = Responded (send_json (JArr (rows res))),
                console = [], issued = [(theQuery, birdNames)], store = db'\<rparr>
           | (Rejected err, db') \<Rightarrow>
               \<lparr>result = Responded (status_send 400 (error_message err)),
                console = [], issued = [(theQuery, birdNames)], store = db'\<rparr>)
      | _ \<Rightarrow> \<lparr>result = Threw TypeError, console = [], issued = [], store = db\<rparr>)"

subsection \<open>PUT /:formattedComName\<close>

definition update_text :: string where
  "update_text =
     ''UPDATE birds SET Com_Name = $1, Sci_Name = $2, Preview_Photo = $3, \<newline>'' @
     ''            Male_Breeding_Photo = $4, Male_Nonbreeding_Photo = $5, Female_Photo = $6, Sound = $7,\<newline>'' @
     ''            Short_Desc = $8, Long_Desc = $9, How_To_Find = $10, Habitat = $11, Learn_More_Link = $12\<newline>'' @
     ''            WHERE Formatted_Com_Name = $13 RETURNING *;''"

text \<open>\<^verbatim>\<open>result.rows[0]\<close>: reading past the end of an array gives \<^verbatim>\<open>undefined\<close>.\<close>

definition first_row :: "json list \<Rightarrow> json" where
  "first_row rs = (case rs of [] \<Rightarrow> JUndefined | r # _ \<Rightarrow> r)"

definition update_bird :: "'db pool \<Rightarrow> request \<Rightarrow> 'db \<Rightarrow> 'db run" where
  "update_bird pool request db =
     (let birdName = js_param request ''formattedComName'';
          theQuery = update_text;
          vals = [js_get (body request) ''comName'',
                  js_get (body request) ''sciName'',
                  js_get (body request) ''previewPhoto'',
                  js_get (body request) ''maleBreedingPhoto'',
                  js_get (body request) ''maleNonbreedingPhoto'',
                  js_get (body request) ''femalePhoto'',
                  js_get (body request) ''sound'',
                  js_get (body request) ''shortDesc'',
                  js_get (body request) ''longDesc'',
                  js_get (body request) ''howToFind'',
                  js_get (body request) ''habitat'',
                  js_get (body request) ''learnMoreLink'',
                  birdName] in
      case pool theQuery vals db of
        (Resolved res, db') \<Rightarrow>
          \<lparr>result = Responded
              (if rowCount res > 0 then send_json (first_row (rows res))
               else status_send 404 (JObj [(''message'', JStr ''No bird found with the provided name.'')])),
           console = [], issued = [(theQuery, vals)], store = db'\<rparr>
      | (Rejected err, db') \<Rightarrow>
          \<lparr>result = Responded (status_send 400 (error_message err)),
           console = [], issued = [(theQuery, vals)], store = db'\<rparr>)"

subsection \<open>POST /\<close>

definition insert_text :: string where
  "insert_text =
     ''INSERT INTO birds (Formatted_Com_Name, Com_Name, Sci_Name, Preview_Photo,\<newline>'' @
     ''            Male_Breeding_Photo, Male_Nonbreeding_Photo, Female_Photo, Sound, Short_Desc, Long_Desc,\<newline>'' @
     ''            How_To_Find, Habitat, Learn_More_Link) VALUES ($1, $2, $3, $4, $5, $6, $7, $8, $9, $10,\<newline>'' @
     ''            $11, $12, $13) RETURNING *;''"

definition add_bird :: "'db pool \<Rightarrow> request \<Rightarrow> 'db \<Rightarrow> 'db run" where
  "add_bird pool request db =
     (let theQuery = insert_text;
          vals = [js_get (body request) ''formattedComName'',
                  js_get (body request) ''comName'',
                  js_get (body request) ''sciName'',
                  js_get (body request) ''previewPhoto'',
                  js_get (body request) ''maleBreedingPhoto'',
                  js_get (body request) ''maleNonbreedingPhoto'',
                  js_get (body request) ''femalePhoto'',
                  js_get (body request) ''sound'',
                  js_get (body request) ''shortDesc'',
                  js_get (body request) ''longDesc'',
                  js_get (body request) ''howToFind'',
                  js_get (body request) ''habitat'',
                  js_get (body request) ''learnMoreLink''] in
      case pool theQuery vals db of
        (Resolved res, db') \<Rightarrow>
          \<lparr>result = Responded (send_json (first_row (rows res))),
           console = [], issued = [(theQuery, vals)], store = db'\<rparr>
      | (Rejected err, db') \<Rightarrow>
          \<lparr>result = Responded (status_send 400 (error_message err)),
           console = [], issued = [(theQuery, vals)], store = db'\<rparr>)"

subsection \<open>DELETE /\<close>

definition delete_text :: "json list \<Rightarrow> string" where
  "delete_text birdNames =
     ''DELETE FROM Birds WHERE Formatted_Com_Name IN ('' @ placeholders birdNames @ '');''"

definition delete_birds :: "'db pool \<Rightarrow> request \<Rightarrow> 'db \<Rightarrow> 'db run" where
  "delete_birds pool request db =
     (case js_get (body request) ''names'' of
        JArr birdNames \<Rightarrow>
          (let theQuery = delete_text birdNames in
           case pool theQuery birdNames db of
             (Resolved res, db') \<Rightarrow>
               \<lparr>result = Responded
                   (if rowCount res > 0
                    then send_json (JObj [(''message'', JStr (show_nat (rowCount res) @ '' bird(s) deleted successfully.'')),
                                          (''birdNames'', JArr birdNames)])
                    else status_send 404 (JObj [(''message'', JStr ''No birds found with the provided names.''),
                                                (''birdNames'', JArr birdNames)])),
                console = [], issued = [(theQuery, birdNames)], store = db'\<rparr>
           | (Rejected err, db') \<Rightarrow>
               \<lparr>result = Responded (status_send 400 (error_message err)),
                console = [], issued = [(theQuery, birdNames)], store = db'\<rparr>)
      | _ \<Rightarrow> \<lparr>result = Threw TypeError, console = [], issued = [], store = db\<rparr>)"

section \<open>The router\<close>

text \<open>
  A route is registered with a method, a path, its middleware and its handler. Serving a
  request on a route runs the middleware in order; the handler runs when each of them
  has called \<^verbatim>\<open>next()\<close>.
\<close>

datatype http_method = GET | PUT | POST | DELETE

record 'db route =
  verb :: http_method
  path :: string
  middleware :: "(request \<Rightarrow> mw_result) list"
  handler :: "request \<Rightarrow> 'db \<Rightarrow> 'db run"

fun serve_from :: "(request \<Rightarrow> mw_result) list \<Rightarrow> (request \<Rightarrow> 'db \<Rightarrow> 'db run) \<Rightarrow> request \<Rightarrow> 'db \<Rightarrow> 'db run" where
  "serve_from [] h request db = h request db"
| "serve_from (mw # mws) h request db =
     (case mw request of
        Next \<Rightarrow> serve_from mws h request db
      | Halt logged resp \<Rightarrow> \<lparr>result = Responded resp, console = logged, issued = [], store = db\<rparr>)"

definition serve :: "'db route \<Rightarrow> request \<Rightarrow> 'db \<Rightarrow> 'db run" where
  "serve r request db = serve_from (middleware r) (handler r) request db"

definition route_get_all :: "'db pool \<Rightarrow> 'db route" where
  "route_get_all pool = \<lparr>verb = GET, path = ''/all'', middleware = [], handler = get_all pool\<rparr>"

definition route_get_by_names :: "'db pool \<Rightarrow> 'db route" where
  "route_get_by_names pool =
     \<lparr>verb = GET, path = ''/'', middleware = [mwValidBirdsBody], handler = get_by_names pool\<rparr>"

definition route_put :: "'db pool \<Rightarrow> 'db route" where
  "route_put pool =
     \<lparr>verb = PUT, path = ''/:formattedComName'', middleware = [], handler = update_bird pool\<rparr>"

definition route_post :: "'db pool \<Rightarrow> 'db route" where
  "route_post pool = \<lparr>verb = POST, path = ''/'', middleware = [], handler = add_bird pool\<rparr>"

definition route_delete :: "'db pool \<Rightarrow> 'db route" where
  "route_delete pool = \<lparr>verb = DELETE, path = ''/'', middleware = [], handler = delete_birds pool\<rparr>"

definition birdRouter :: "'db pool \<Rightarrow> 'db route list" where
  "birdRouter pool =
     [route_get_all pool, route_get_by_names pool, route_put pool, route_post pool, route_delete pool]"

section \<open>The store\<close>

text \<open>
  Modelled from the spec: the connection pool of \<^verbatim>\<open>core/utilities\<close> and the PostgreSQL
  server behind it are not among the sources. The spec describes the pool as a
  collaborator that will ``execute parameterized SQL, return affected-row count and row
  set, or reject with a driver-specific error carrying a human-readable detail string'',
  over ``a single table keyed by normalized common name, with fixed text columns''. What
  follows gives the five statements of the router their PostgreSQL meaning: the
  statement text is split into tokens and parsed, the parsed statement is checked
  against the declaration of the table, the values are bound to the positional
  parameters, and the statement is run on the rows. A text outside these statement
  forms is answered with a syntax error. The rows are kept in the order in which a scan
  returns them. The encoding checks of the server on text values and the limits of the
  wire protocol are outside the model.
\<close>

subsection \<open>Values\<close>

text \<open>Every column of the table is \<^verbatim>\<open>TEXT\<close>. The driver sends \<^verbatim>\<open>null\<close> and
  \<^verbatim>\<open>undefined\<close> as SQL \<^verbatim>\<open>NULL\<close> and a string as it is; \<open>enc\<close> stands for its text
  encoding of the other values (numbers, booleans, arrays and objects).\<close>

datatype sql_value = Null | Text string

definition prepareValue :: "(json \<Rightarrow> string) \<Rightarrow> json \<Rightarrow> sql_value" where
  "prepareValue enc v =
     (case v of JUndefined \<Rightarrow> Null | JNull \<Rightarrow> Null | JStr s \<Rightarrow> Text s | _ \<Rightarrow> Text (enc v))"

subsection \<open>Tokens\<close>

text \<open>Unquoted identifiers and key words are case-insensitive: a word is folded to
  lower case. \<^verbatim>\<open>$n\<close> is the positional parameter \<open>n\<close>.\<close>

datatype token = TWord string | TParam nat | TStar | TLParen | TRParen | TComma | TEq | TSemi

definition is_space :: "char \<Rightarrow> bool" where
  "is_space c = (c \<in> set [CHR '' '', CHR 0x0A, CHR 0x09, CHR 0x0D, CHR 0x0C])"

definition is_letter :: "char \<Rightarrow> bool" where
  "is_letter c = (c \<in> set ''ABCDEFGHIJKLMNOPQRSTUVWXYZabcdefghijklmnopqrstuvwxyz_'')"

definition lower :: "char \<Rightarrow> char" where
  "lower c = (case map_of (zip ''ABCDEFGHIJKLMNOPQRSTUVWXYZ'' ''abcdefghijklmnopqrstuvwxyz'') c of
                None \<Rightarrow> c | Some d \<Rightarrow> d)"

definition punct :: "char \<Rightarrow> token option" where
  "punct c = map_of [(CHR ''*'', TStar), (CHR ''('', TLParen), (CHR '')'', TRParen),
                     (CHR '','', TComma), (CHR ''='', TEq), (CHR '';'', TSemi)] c"

function sql_lex :: "string \<Rightarrow> token list option" where
  "sql_lex [] = Some []"
| "sql_lex (c # cs) =
     (if is_space c then sql_lex cs
      else if c = CHR ''$'' then
        (if takeWhile is_digit cs = [] then None
         else map_option ((#) (TParam (read_nat (takeWhile is_digit cs)))) (sql_lex (dropWhile is_digit cs)))
      else if is_letter c then
        map_option ((#) (TWord (map lower (c # takeWhile (\<lambda>d. is_letter d \<or> is_digit d) cs))))
          (sql_lex (dropWhile (\<lambda>d. is_letter d \<or> is_digit d) cs))
      else (case punct c of None \<Rightarrow> None | Some t \<Rightarrow> map_option ((#) t) (sql_lex cs)))"
  by pat_completeness auto
termination
  by (relation "measure length") (auto simp: less_Suc_eq_le length_dropWhile_le)

subsection \<open>Statements\<close>

text \<open>
  The statement forms of the router, with the relation, the columns and the parameter
  numbers they name:
  \<^verbatim>\<open>SELECT * FROM t\<close>,
  \<^verbatim>\<open>SELECT * FROM t WHERE c IN ($i, ...)\<close>,
  \<^verbatim>\<open>DELETE FROM t WHERE c IN ($i, ...)\<close>,
  \<^verbatim>\<open>INSERT INTO t (c, ...) VALUES ($i, ...) RETURNING *\<close> and
  \<^verbatim>\<open>UPDATE t SET c = $i, ... WHERE c = $i RETURNING *\<close>,
  each with or without a final semicolon. A list in parentheses has at least one
  element: \<^verbatim>\<open>IN ()\<close> is a syntax error.
\<close>

datatype stmt =
    SelectAll string
  | SelectIn string string "nat list"
  | DeleteIn string string "nat list"
  | InsertReturning string "string list" "nat list"
  | UpdateReturning string "(string \<times> nat) list" string nat

fun take_token :: "token \<Rightarrow> token list \<Rightarrow> token list option" where
  "take_token t [] = None"
| "take_token t (x # ts) = (if x = t then Some ts else None)"

fun take_word :: "token list \<Rightarrow> (string \<times> token list) option" where
  "take_word (TWord w # ts) = Some (w, ts)"
| "take_word ts = None"

fun take_param :: "token list \<Rightarrow> (nat \<times> token list) option" where
  "take_param (TParam n # ts) = Some (n, ts)"
| "take_param ts = None"

fun parse_params :: "token list \<Rightarrow> (nat list \<times> token list) option" where
  "parse_params (TParam n # t # ts) =
     (if t = TComma then map_option (\<lambda>(ns, r). (n # ns, r)) (parse_params ts)
      else if t = TRParen then Some ([n], ts)
      else None)"
| "parse_params ts = None"

fun parse_columns :: "token list \<Rightarrow> (string list \<times> token list) option" where
  "parse_columns (TWord c # t # ts) =
     (if t = TComma then map_option (\<lambda>(cs, r). (c # cs, r)) (parse_columns ts)
      else if t = TRParen then Some ([c], ts)
      else None)"
| "parse_columns ts = None"

fun parse_assignments :: "token list \<Rightarrow> ((string \<times> nat) list \<times> token list) option" where
  "parse_assignments (TWord c # e # TParam n # ts) =
     (if e \<noteq> TEq then None
      else case ts of
        t # ts' \<Rightarrow>
          if t = TComma then map_option (\<lambda>(as, r). ((c, n) # as, r)) (parse_assignments ts')
          else Some ([(c, n)], ts)
      | [] \<Rightarrow> Some ([(c, n)], ts))"
| "parse_assignments ts = None"

definition at_end :: "token list \<Rightarrow> bool" where
  "at_end ts = (ts = [] \<or> ts = [TSemi])"

definition parse_where_in :: "token list \<Rightarrow> (string \<times> nat list) option" where
  "parse_where_in ts0 = do {
     ts \<leftarrow> take_token (TWord ''where'') ts0;
     (c, ts) \<leftarrow> take_word ts;
     ts \<leftarrow> take_token (TWord ''in'') ts;
     ts \<leftarrow> take_token TLParen ts;
     (ns, ts) \<leftarrow> parse_params ts;
     if at_end ts then Some (c, ns) else None
   }"

definition parse_returning :: "token list \<Rightarrow> unit option" where
  "parse_returning ts0 = do {
     ts \<leftarrow> take_token (TWord ''returning'') ts0;
     ts \<leftarrow> take_token TStar ts;
     if at_end ts then Some () else None
   }"

definition parse_select :: "token list \<Rightarrow> stmt option" where
  "parse_select ts0 = do {
     ts \<leftarrow> take_token TStar ts0;
     ts \<leftarrow> take_token (TWord ''from'') ts;
     (t, ts) \<leftarrow> take_word ts;
     if at_end ts then Some (SelectAll t)
     else do { (c, ns) \<leftarrow> parse_where_in ts; Some (SelectIn t c ns) }
   }"

definition parse_delete :: "token list \<Rightarrow> stmt option" where
  "parse_delete ts0 = do {
     ts \<leftarrow> take_token (TWord ''from'') ts0;
     (t, ts) \<leftarrow> take_word ts;
     (c, ns) \<leftarrow> parse_where_in ts;
     Some (DeleteIn t c ns)
   }"

definition parse_insert :: "token list \<Rightarrow> stmt option" where
  "parse_insert ts0 = do {
     ts \<leftarrow> take_token (TWord ''into'') ts0;
     (t, ts) \<leftarrow> take_word ts;
     ts \<leftarrow> take_token TLParen ts;
     (cs, ts) \<leftarrow> parse_columns ts;
     ts \<leftarrow> take_token (TWord ''values'') ts;
     ts \<leftarrow> take_token TLParen ts;
     (ns, ts) \<leftarrow> parse_params ts;
     _ \<leftarrow> parse_returning ts;
     Some (InsertReturning t cs ns)
   }"

definition parse_update :: "token list \<Rightarrow> stmt option" where
  "parse_update ts0 = do {
     (t, ts) \<leftarrow> take_word ts0;
     ts \<leftarrow> take_token (TWord ''set'') ts;
     (as, ts) \<leftarrow> parse_assignments ts;
     ts \<leftarrow> take_token (TWord ''where'') ts;
     (c, ts) \<leftarrow> take_word ts;
     ts \<leftarrow> take_token TEq ts;
     (n, ts) \<leftarrow> take_param ts;
     _ \<leftarrow> parse_returning ts;
     Some (UpdateReturning t as c n)
   }"

definition sql_parse :: "token list \<Rightarrow> stmt option" where
  "sql_parse ts0 = do {
     (k, ts) \<leftarrow> take_word ts0;
     if k = ''select'' then parse_select ts
     else if k = ''delete'' then parse_delete ts
     else if k = ''insert'' then parse_insert ts
     else if k = ''update'' then parse_update ts
     else None
   }"

subsection \<open>The table\<close>

text \<open>\<^verbatim>\<open>CREATE TABLE Birds\<close> of the schema file: twelve \<^verbatim>\<open>TEXT\<close> columns, the first the
  primary key, the second \<^verbatim>\<open>NOT NULL\<close>. The two account tables of that file are read by
  no statement of the router and are left out.\<close>

datatype constraint = PrimaryKey | NotNull | Nullable

record table_decl =
  relname :: string
  columns :: "(string \<times> constraint) list"

definition Birds :: table_decl where
  "Birds =
     \<lparr>relname = ''Birds'',
      columns =
        [(''Formatted_Com_Name'', PrimaryKey),
         (''Com_Name'', NotNull),
         (''Sci_Name'', Nullable),
         (''Preview_Photo'', Nullable),
         (''Male_Breeding_Photo'', Nullable),
         (''Male_Nonbreeding_Photo'', Nullable),
         (''Female_Photo'', Nullable),
         (''Sound'', Nullable),
         (''Short_Desc'', Nullable),
         (''Long_Desc'', Nullable),
         (''How_To_Find'', Nullable),
         (''Learn_More_Link'', Nullable)]\<rparr>"

definition fold_ident :: "string \<Rightarrow> string" where
  "fold_ident s = map lower s"

definition column_names :: "table_decl \<Rightarrow> string list" where
  "column_names tbl = map (\<lambda>(c, k). fold_ident c) (columns tbl)"

type_synonym row = "(string \<times> sql_value) list"

definition cell :: "row \<Rightarrow> string \<Rightarrow> sql_value" where
  "cell r c = (case map_of r c of None \<Rightarrow> Null | Some v \<Rightarrow> v)"

subsection \<open>Checking a statement against the table\<close>

text \<open>The server rejects a statement that names another relation (\<^verbatim>\<open>42P01\<close>) or a
  column the table does not declare (\<^verbatim>\<open>42703\<close>), an \<^verbatim>\<open>INSERT\<close> whose column and value
  lists differ in length (\<^verbatim>\<open>42601\<close>) or that names a column twice (\<^verbatim>\<open>42701\<close>), an
  \<^verbatim>\<open>UPDATE\<close> that assigns a column twice (\<^verbatim>\<open>42601\<close>), the parameter \<^verbatim>\<open>$0\<close>
  (\<^verbatim>\<open>42P02\<close>) and a gap in the parameter numbers (\<^verbatim>\<open>42P18\<close>). None of these errors
  carries a \<^verbatim>\<open>detail\<close>.\<close>

fun relation_of :: "stmt \<Rightarrow> string" where
  "relation_of (SelectAll t) = t"
| "relation_of (SelectIn t c ns) = t"
| "relation_of (DeleteIn t c ns) = t"
| "relation_of (InsertReturning t cs ns) = t"
| "relation_of (UpdateReturning t as c n) = t"

fun columns_of :: "stmt \<Rightarrow> string list" where
  "columns_of (SelectAll t) = []"
| "columns_of (SelectIn t c ns) = [c]"
| "columns_of (DeleteIn t c ns) = [c]"
| "columns_of (InsertReturning t cs ns) = cs"
| "columns_of (UpdateReturning t as c n) = map fst as @ [c]"

fun params_of :: "stmt \<Rightarrow> nat list" where
  "params_of (SelectAll t) = []"
| "params_of (SelectIn t c ns) = ns"
| "params_of (DeleteIn t c ns) = ns"
| "params_of (InsertReturning t cs ns) = ns"
| "params_of (UpdateReturning t as c n) = map snd as @ [n]"

definition failure :: "string \<Rightarrow> pg_error" where
  "failure c = \<lparr>code = c, detail = None\<rparr>"

fun shape_error :: "stmt \<Rightarrow> pg_error option" where
  "shape_error (InsertReturning t cs ns) =
     (if length cs \<noteq> length ns then Some (failure ''42601'')
      else if \<not> distinct cs then Some (failure ''42701'')
      else None)"
| "shape_error (UpdateReturning t as c n) =
     (if \<not> distinct (map fst as) then Some (failure ''42601'') else None)"
| "shape_error s = None"

definition analyse :: "table_decl \<Rightarrow> stmt \<Rightarrow> pg_error option" where
  "analyse tbl s =
     (if relation_of s \<noteq> fold_ident (relname tbl) then Some (failure ''42P01'')
      else if \<not> list_all (\<lambda>c. c \<in> set (column_names tbl)) (columns_of s) then Some (failure ''42703'')
      else if shape_error s \<noteq> None then shape_error s
      else if 0 \<in> set (params_of s) then Some (failure ''42P02'')
      else if \<not> list_all (\<lambda>i. i \<in> set (params_of s)) [1..<Suc (fold max (params_of s) 0)]
        then Some (failure ''42P18'')
      else None)"

subsection \<open>Running a statement\<close>

text \<open>A row satisfies \<^verbatim>\<open>c IN ($i, ...)\<close> and \<^verbatim>\<open>c = $i\<close> when its value of \<open>c\<close> is not
  \<^verbatim>\<open>NULL\<close> and equals one of the bound values.\<close>

definition matches_in :: "sql_value list \<Rightarrow> string \<Rightarrow> nat list \<Rightarrow> row \<Rightarrow> bool" where
  "matches_in vals c ns r =
     (cell r c \<noteq> Null \<and> cell r c \<in> set (map (\<lambda>p. vals ! (p - 1)) ns))"

text \<open>A new or changed row must have a value in every \<^verbatim>\<open>NOT NULL\<close> and primary-key
  column (\<^verbatim>\<open>23502\<close>), and its key must differ from the key of every other row
  (\<^verbatim>\<open>23505\<close>). These two errors carry a \<^verbatim>\<open>detail\<close>.\<close>

definition print_value :: "sql_value \<Rightarrow> string" where
  "print_value v = (case v of Null \<Rightarrow> ''null'' | Text s \<Rightarrow> s)"

definition violation :: "table_decl \<Rightarrow> row list \<Rightarrow> row \<Rightarrow> pg_error option" where
  "violation tbl others r =
     (if list_ex (\<lambda>(c, k). k \<noteq> Nullable \<and> cell r (fold_ident c) = Null) (columns tbl)
      then Some \<lparr>code = ''23502'',
                 detail = Some (''Failing row contains ('' @ join '', '' (map (\<lambda>(c, v). print_value v) r) @ '').'')\<rparr>
      else case filter (\<lambda>(c, k). k = PrimaryKey \<and> list_ex (\<lambda>other. cell other (fold_ident c) = cell r (fold_ident c)) others)
                  (columns tbl) of
        [] \<Rightarrow> None
      | (c, k) # _ \<Rightarrow>
          Some \<lparr>code = ''23505'',
                detail = Some (''Key ('' @ fold_ident c @ '')=('' @ print_value (cell r (fold_ident c)) @
                               '') already exists.'')\<rparr>)"

text \<open>\<^verbatim>\<open>UPDATE\<close> visits the rows in order and checks each changed row against the other
  rows as they are at that moment; the first violation aborts the statement.\<close>

fun update_rows ::
  "table_decl \<Rightarrow> (row \<Rightarrow> bool) \<Rightarrow> (row \<Rightarrow> row) \<Rightarrow> row list \<Rightarrow> row list \<Rightarrow> pg_error + (row list \<times> row list)" where
  "update_rows tbl hit f seen [] = Inr (seen, [])"
| "update_rows tbl hit f seen (r # rs) =
     (if hit r then
        (case violation tbl (seen @ rs) (f r) of
           Some e \<Rightarrow> Inl e
         | None \<Rightarrow>
             (case update_rows tbl hit f (seen @ [f r]) rs of
                Inl e \<Rightarrow> Inl e
              | Inr (table, returned) \<Rightarrow> Inr (table, f r # returned)))
      else update_rows tbl hit f (seen @ [r]) rs)"

record pg_result =
  affected :: nat
  returned :: "row list"

datatype pg_answer = Done pg_result | Failed pg_error

fun sql_exec :: "table_decl \<Rightarrow> row list \<Rightarrow> stmt \<Rightarrow> sql_value list \<Rightarrow> pg_answer \<times> row list" where
  "sql_exec tbl db (SelectAll t) vals = (Done \<lparr>affected = length db, returned = db\<rparr>, db)"
| "sql_exec tbl db (SelectIn t c ns) vals =
     (let found = filter (matches_in vals c ns) db
      in (Done \<lparr>affected = length found, returned = found\<rparr>, db))"
| "sql_exec tbl db (DeleteIn t c ns) vals =
     (let found = filter (matches_in vals c ns) db
      in (Done \<lparr>affected = length found, returned = []\<rparr>, filter (\<lambda>r. \<not> matches_in vals c ns r) db))"
| "sql_exec tbl db (InsertReturning t cs ns) vals =
     (let given = zip cs (map (\<lambda>p. vals ! (p - 1)) ns);
          r = map (\<lambda>c. (c, case map_of given c of None \<Rightarrow> Null | Some v \<Rightarrow> v)) (column_names tbl)
      in case violation tbl db r of
           Some e \<Rightarrow> (Failed e, db)
         | None \<Rightarrow> (Done \<lparr>affected = 1, returned = [r]\<rparr>, db @ [r]))"
| "sql_exec tbl db (UpdateReturning t as c n) vals =
     (let given = map (\<lambda>(a, p). (a, vals ! (p - 1))) as;
          f = (\<lambda>r. map (\<lambda>(a, v). (a, case map_of given a of None \<Rightarrow> v | Some v' \<Rightarrow> v')) r)
      in case update_rows tbl (matches_in vals c [n]) f [] db of
           Inl e \<Rightarrow> (Failed e, db)
         | Inr (db', changed) \<Rightarrow> (Done \<lparr>affected = length changed, returned = changed\<rparr>, db'))"

text \<open>A statement needs as many values as its highest parameter number
  (\<^verbatim>\<open>08P01\<close> otherwise). A failed statement leaves the rows as they were.\<close>

definition sql_run :: "table_decl \<Rightarrow> row list \<Rightarrow> string \<Rightarrow> sql_value list \<Rightarrow> pg_answer \<times> row list" where
  "sql_run tbl db text vals =
     (case Option.bind (sql_lex text) sql_parse of
        None \<Rightarrow> (Failed (failure ''42601''), db)
      | Some s \<Rightarrow>
          (case analyse tbl s of
             Some e \<Rightarrow> (Failed e, db)
           | None \<Rightarrow>
               if length vals \<noteq> fold max (params_of s) 0 then (Failed (failure ''08P01''), db)
               else sql_exec tbl db s vals))"

subsection \<open>The pool over the store\<close>

text \<open>A returned row is an object keyed by the column names as the server reports
  them, in lower case.\<close>

definition row_json :: "row \<Rightarrow> json" where
  "row_json r = JObj (map (\<lambda>(c, v). (c, case v of Null \<Rightarrow> JNull | Text s \<Rightarrow> JStr s)) r)"

text \<open>Modelled from the spec: the pool object of \<^verbatim>\<open>core/utilities\<close>, whose \<^verbatim>\<open>query\<close>
  the spec describes as ``execute parameterized SQL, return affected-row count and row
  set, or reject with a driver-specific error carrying a human-readable detail string''.
  Here it runs the statement on the rows of the table \<open>tbl\<close>. \<^verbatim>\<open>rowCount\<close> is the number
  of rows returned by a \<^verbatim>\<open>SELECT\<close> and the number of rows affected otherwise.\<close>

definition pg_pool :: "table_decl \<Rightarrow> (json \<Rightarrow> string) \<Rightarrow> row list pool" where
  "pg_pool tbl enc text vals db =
     (case sql_run tbl db text (map (prepareValue enc) vals) of
        (Done r, db') \<Rightarrow> (Resolved \<lparr>rowCount = affected r, rows = map row_json (returned r)\<rparr>, db')
      | (Failed e, db') \<Rightarrow> (Rejected e, db'))"

section \<open>Definitions used in the statements and proofs\<close>

text \<open>The spec's words for the placeholder list: the placeholders \<^verbatim>\<open>$1\<close> through
  \<^verbatim>\<open>$n\<close>, joined by commas.\<close>

definition spec_placeholders :: "nat \<Rightarrow> string" where
  "spec_placeholders n = join '','' (map (\<lambda>k. ''$'' @ show_nat k) [1..<Suc n])"

text \<open>The parameter numbers that \<open>map_placeholder\<close> prints, and a parameter list as
  tokens.\<close>

fun count_from :: "nat \<Rightarrow> 'a list \<Rightarrow> nat list" where
  "count_from i [] = []"
| "count_from i (x # xs) = Suc i # count_from (Suc i) xs"

fun comma_params :: "nat list \<Rightarrow> token list" where
  "comma_params [] = []"
| "comma_params [n] = [TParam n]"
| "comma_params (n # m # ns) = TParam n # TComma # comma_params (m # ns)"

text \<open>The key of a row, and the keys of the stored rows. The column is the primary key
  of the table, so the keys of the rows of a store are distinct.\<close>

definition primary_key :: "row \<Rightarrow> sql_value" where
  "primary_key r = cell r ''formatted_com_name''"

definition keys :: "row list \<Rightarrow> sql_value list" where
  "keys db = map primary_key db"

text \<open>The bird of the spec's scenarios: as a stored row, and as a request body.\<close>

definition american_robin :: row where
  "american_robin =
     [(''formatted_com_name'', Text ''AmericanRobin''),
      (''com_name'', Text ''American Robin''),
      (''sci_name'', Text ''Turdus migratorius''),
      (''preview_photo'', Null),
      (''male_breeding_photo'', Null),
      (''male_nonbreeding_photo'', Null),
      (''female_photo'', Null),
      (''sound'', Text ''robin.mp3''),
      (''short_desc'', Null),
      (''long_desc'', Null),
      (''how_to_find'', Null),
      (''learn_more_link'', Null)]"

definition american_robin_body :: "(string \<times> json) list" where
  "american_robin_body =
     [(''formattedComName'', JStr ''AmericanRobin''),
      (''comName'', JStr ''American Robin''),
      (''sciName'', JStr ''Turdus migratorius''),
      (''previewPhoto'', JNull),
      (''maleBreedingPhoto'', JNull),
      (''maleNonbreedingPhoto'', JNull),
      (''femalePhoto'', JNull),
      (''sound'', JStr ''robin.mp3''),
      (''shortDesc'', JNull),
      (''longDesc'', JNull),
      (''howToFind'', JNull),
      (''habitat'', JStr ''Lawns and woodland''),
      (''learnMoreLink'', JNull)]"

text \<open>Modelled from the spec: the persisted table, which is not owned by the router and
  which the spec describes as ``a single table keyed by normalized common name, with
  fixed text columns for every Bird field''. It is the table \<open>Birds\<close> of the schema file
  with a column for the field \<^verbatim>\<open>habitat\<close>, which that file lacks. With it, the row of
  the scenario.\<close>

definition Birds_with_habitat :: table_decl where
  "Birds_with_habitat =
     \<lparr>relname = ''Birds'',
      columns = take 11 (columns Birds) @ [(''Habitat'', Nullable)] @ drop 11 (columns Birds)\<rparr>"

definition american_robin_with_habitat :: row where
  "american_robin_with_habitat =
     take 11 american_robin @ [(''habitat'', Text ''Lawns and woodland'')] @ drop 11 american_robin"

text \<open>A pool that keeps, as its state, the calls it has received, in order, and answers
  each of them with \<open>reply\<close>.\<close>

definition recording_pool :: "pg_reply \<Rightarrow> (string \<times> json list) list pool" where
  "recording_pool reply text vals calls = (reply, calls @ [(text, vals)])"







text \<open>A failing pool, for the error branches.\<close>

definition broken_pool :: "nat pool" where
  "broken_pool text vals db =
     (Rejected \<lparr>code = ''08006'', detail = Some ''connection to 10.0.0.5 lost''\<rparr>, db)"

section \<open>Properties: validation, and the handlers that call \<^verbatim>\<open>.map\<close>\<close>

lemma serve_get_by_names:
  "serve (route_get_by_names pool) request db =
     (if isArray (js_get (body request) ''birds'') then get_by_names pool request db
      else \<lparr>result = Responded (status_send 400
               (JObj [(''message'', JStr ''Invalid or missing Bird - please refer to documentation'')])),
            console = [LogText ''Invalid or missing Birds''], issued = [], store = db\<rparr>)"
  by (simp add: serve_def route_get_by_names_def mwValidBirdsBody_def)

lemma get_by_names_throws:
  "\<not> isArray (js_get (body request) ''birdNames'') \<Longrightarrow>
   get_by_names pool request db = \<lparr>result = Threw TypeError, console = [], issued = [], store = db\<rparr>"
  by (cases "js_get (body request) ''birdNames''") (auto simp: get_by_names_def)

text \<open>
  C1. On the route \<^verbatim>\<open>GET /\<close> the middleware calls \<^verbatim>\<open>next()\<close> exactly when the body
  field \<^verbatim>\<open>birds\<close> is an array, while the handler reads the body field \<^verbatim>\<open>birdNames\<close>.
  Every request whose \<^verbatim>\<open>birds\<close> is an array and whose \<^verbatim>\<open>birdNames\<close> is not passes
  validation and then throws a \<^verbatim>\<open>TypeError\<close> from the handler, with no statement
  issued and no response sent by the handler; a request with \<^verbatim>\<open>birds\<close> an array and
  \<^verbatim>\<open>birdNames\<close> absent is such a request.
\<close>

theorem lookup_validates_birds_reads_birdNames:
  "((mwValidBirdsBody request = Next) = isArray (js_get (body request) ''birds'')) \<and>
   (isArray (js_get (body request) ''birds'') \<and> \<not> isArray (js_get (body request) ''birdNames'') \<longrightarrow>
      serve (route_get_by_names pool) request db =
        \<lparr>result = Threw TypeError, console = [], issued = [], store = db\<rparr>) \<and>
   (\<exists>r. isArray (js_get (body r) ''birds'') \<and> js_get (body r) ''birdNames'' = JUndefined \<and>
        mwValidBirdsBody r = Next \<and>
        serve (route_get_by_names pool) r db =
          \<lparr>result = Threw TypeError, console = [], issued = [], store = db\<rparr>)"
proof (intro conjI impI)
  show "(mwValidBirdsBody request = Next) = isArray (js_get (body request) ''birds'')"
    by (simp add: mwValidBirdsBody_def)
next
  assume "isArray (js_get (body request) ''birds'') \<and> \<not> isArray (js_get (body request) ''birdNames'')"
  then show "serve (route_get_by_names pool) request db =
        \<lparr>result = Threw TypeError, console = [], issued = [], store = db\<rparr>"
    by (simp add: serve_get_by_names get_by_names_throws)
next
  let ?r = "\<lparr>params = [], body = [(''birds'', JArr [JStr ''AmericanRobin''])]\<rparr>"
  have "isArray (js_get (body ?r) ''birds'')" "js_get (body ?r) ''birdNames'' = JUndefined"
    by (simp_all add: js_get_def)
  moreover from this have "mwValidBirdsBody ?r = Next"
    by (simp add: mwValidBirdsBody_def)
  moreover from calculation have "serve (route_get_by_names pool) ?r db =
          \<lparr>result = Threw TypeError, console = [], issued = [], store = db\<rparr>"
    by (simp add: serve_get_by_names get_by_names_throws)
  ultimately show "\<exists>r. isArray (js_get (body r) ''birds'') \<and> js_get (body r) ''birdNames'' = JUndefined \<and>
        mwValidBirdsBody r = Next \<and>
        serve (route_get_by_names pool) r db =
          \<lparr>result = Threw TypeError, console = [], issued = [], store = db\<rparr>"
    by blast
qed

theorem lookup_validates_birds_reads_birdNames_witness:
  "mwValidBirdsBody \<lparr>params = [], body = [(''birds'', JArr [JStr ''AmericanRobin''])]\<rparr> = Next \<and>
   serve (route_get_by_names (\<lambda>text vals db. (Resolved \<lparr>rowCount = 0, rows = []\<rparr>, db)))
     \<lparr>params = [], body = [(''birds'', JArr [JStr ''AmericanRobin''])]\<rparr> (0::nat) =
     \<lparr>result = Threw TypeError, console = [], issued = [], store = 0\<rparr> \<and>
   mwValidBirdsBody \<lparr>params = [], body = [(''birdNames'', JArr [JStr ''AmericanRobin''])]\<rparr> \<noteq> Next"
  using lookup_validates_birds_reads_birdNames
    [of "\<lparr>params = [], body = [(''birds'', JArr [JStr ''AmericanRobin''])]\<rparr>"
        "\<lambda>text vals db. (Resolved \<lparr>rowCount = 0, rows = []\<rparr>, db)" "0::nat"]
    lookup_validates_birds_reads_birdNames
    [of "\<lparr>params = [], body = [(''birdNames'', JArr [JStr ''AmericanRobin''])]\<rparr>"
        "\<lambda>text vals db. (Resolved \<lparr>rowCount = 0, rows = []\<rparr>, db)" "0::nat"]
  by (simp add: js_get_def)

lemma serve_delete: "serve (route_delete pool) request db = delete_birds pool request db"
  by (simp add: serve_def route_delete_def)

lemma delete_birds_throws:
  "\<not> isArray (js_get (body request) ''names'') \<Longrightarrow>
   delete_birds pool request db = \<lparr>result = Threw TypeError, console = [], issued = [], store = db\<rparr>"
  by (cases "js_get (body request) ''names''") (auto simp: delete_birds_def)

text \<open>
  C10. The route \<^verbatim>\<open>DELETE /\<close> of the router is registered with no middleware. For every
  request whose body field \<^verbatim>\<open>names\<close> is not an array (an absent field included) the
  handler throws a \<^verbatim>\<open>TypeError\<close> before any statement is issued: there is no
  response with status 200, 404 or 400.
\<close>

theorem delete_route_unvalidated:
  "route_delete pool \<in> set (birdRouter pool) \<and>
   verb (route_delete pool) = DELETE \<and> path (route_delete pool) = ''/'' \<and>
   middleware (route_delete pool) = [] \<and>
   (\<not> isArray (js_get (body request) ''names'') \<longrightarrow>
      serve (route_delete pool) request db =
        \<lparr>result = Threw TypeError, console = [], issued = [], store = db\<rparr>)"
  by (simp add: birdRouter_def serve_delete delete_birds_throws) (simp add: route_delete_def)

theorem delete_route_unvalidated_witness:
  "\<not> isArray (js_get [(''names'', JStr ''AmericanRobin'')] ''names'') \<and>
   serve (route_delete (\<lambda>text vals db. (Resolved \<lparr>rowCount = 1, rows = []\<rparr>, db)))
     \<lparr>params = [], body = [(''names'', JStr ''AmericanRobin'')]\<rparr> (0::nat) =
     \<lparr>result = Threw TypeError, console = [], issued = [], store = 0\<rparr> \<and>
   serve (route_delete (\<lambda>text vals db. (Resolved \<lparr>rowCount = 1, rows = []\<rparr>, db)))
     \<lparr>params = [], body = []\<rparr> (0::nat) =
     \<lparr>result = Threw TypeError, console = [], issued = [], store = 0\<rparr>"
  using delete_route_unvalidated
    [of "\<lambda>text vals db. (Resolved \<lparr>rowCount = 1, rows = []\<rparr>, db)"
        "\<lparr>params = [], body = [(''names'', JStr ''AmericanRobin'')]\<rparr>" "0::nat"]
    delete_route_unvalidated
    [of "\<lambda>text vals db. (Resolved \<lparr>rowCount = 1, rows = []\<rparr>, db)"
        "\<lparr>params = [], body = []\<rparr>" "0::nat"]
  by (simp add: js_get_def)

section \<open>Properties: decimal numerals\<close>

lemma digit_cases: "d < 10 \<Longrightarrow> d \<in> {0, 1, 2, 3, 4, 5, 6, 7, 8, 9::nat}"
  by auto

lemma digit_char_digit: "d < 10 \<Longrightarrow> is_digit (digit_char d)"
  by (drule digit_cases) (auto simp: is_digit_def digit_char_def)

lemma digit_val_char: "d < 10 \<Longrightarrow> digit_val (digit_char d) = d"
  by (drule digit_cases) (auto simp: digit_val_def digit_char_def)

lemma show_nat_digits: "list_all is_digit (show_nat n)"
proof (induction n rule: show_nat.induct)
  case (1 n)
  show ?case
  proof (cases "n < 10")
    case True
    then show ?thesis by (simp add: show_nat.simps [of n] digit_char_digit)
  next
    case False
    with 1 show ?thesis by (simp add: show_nat.simps [of n] digit_char_digit)
  qed
qed

lemma show_nat_nonempty: "show_nat n \<noteq> []"
  by (simp add: show_nat.simps [of n])

lemma read_nat_snoc: "read_nat (ds @ [c]) = 10 * read_nat ds + digit_val c"
  by (simp add: read_nat_def)

lemma read_show_nat: "read_nat (show_nat n) = n"
proof (induction n rule: show_nat.induct)
  case (1 n)
  show ?case
  proof (cases "n < 10")
    case True
    then show ?thesis by (simp add: show_nat.simps [of n] read_nat_def digit_val_char)
  next
    case False
    with 1 show ?thesis by (simp add: show_nat.simps [of n] read_nat_snoc digit_val_char)
  qed
qed

section \<open>Properties: the responses of GET /all\<close>

lemma serve_get_all: "serve (route_get_all pool) request db = get_all pool request db"
  by (simp add: serve_def route_get_all_def)

text \<open>
  C8. On the route \<^verbatim>\<open>GET /all\<close>: when the query resolves with a row count of at least
  one, the response is 200 with the JSON array of all rows of the result; when it
  resolves with a row count of zero, the response is 404 with a fixed message; when it
  is rejected, the response is 500 with a fixed message that is the same for every
  error, and the error goes to the console only.
\<close>

theorem get_all_responses:
  "(pool ''SELECT * FROM Birds'' [] db = (Resolved res, db') \<and> rowCount res \<ge> 1 \<longrightarrow>
      serve (route_get_all pool) request db =
        \<lparr>result = Responded \<lparr>status = 200, payload = JArr (rows res)\<rparr>,
         console = [], issued = [(''SELECT * FROM Birds'', [])], store = db'\<rparr>) \<and>
   (pool ''SELECT * FROM Birds'' [] db = (Resolved res, db') \<and> rowCount res = 0 \<longrightarrow>
      serve (route_get_all pool) request db =
        \<lparr>result = Responded \<lparr>status = 404,
            payload = JObj [(''message'', JStr ''No birds were found in the database'')]\<rparr>,
         console = [], issued = [(''SELECT * FROM Birds'', [])], store = db'\<rparr>) \<and>
   (pool ''SELECT * FROM Birds'' [] db = (Rejected err, db') \<longrightarrow>
      serve (route_get_all pool) request db =
        \<lparr>result = Responded \<lparr>status = 500,
            payload = JObj [(''message'', JStr ''server error - contact support'')]\<rparr>,
         console = [LogText ''DB Query error on GET all'', LogError err],
         issued = [(''SELECT * FROM Birds'', [])], store = db'\<rparr>)"
  by (simp add: serve_get_all get_all_def send_json_def status_send_def)

lemma pg_select_all_robin:
  "pg_pool Birds (\<lambda>v. []) ''SELECT * FROM Birds'' [] [american_robin] =
     (Resolved \<lparr>rowCount = 1, rows = [row_json american_robin]\<rparr>, [american_robin])"
  by code_simp

lemma pg_select_all_empty:
  "pg_pool Birds (\<lambda>v. []) ''SELECT * FROM Birds'' [] [] = (Resolved \<lparr>rowCount = 0, rows = []\<rparr>, [])"
  by code_simp

theorem get_all_responses_witness:
  "serve (route_get_all (pg_pool Birds (\<lambda>v. []))) \<lparr>params = [], body = []\<rparr> [american_robin] =
     \<lparr>result = Responded \<lparr>status = 200, payload = JArr [row_json american_robin]\<rparr>,
      console = [], issued = [(''SELECT * FROM Birds'', [])], store = [american_robin]\<rparr> \<and>
   serve (route_get_all (pg_pool Birds (\<lambda>v. []))) \<lparr>params = [], body = []\<rparr> [] =
     \<lparr>result = Responded \<lparr>status = 404,
         payload = JObj [(''message'', JStr ''No birds were found in the database'')]\<rparr>,
      console = [], issued = [(''SELECT * FROM Birds'', [])], store = []\<rparr> \<and>
   serve (route_get_all broken_pool) \<lparr>params = [], body = []\<rparr> 0 =
     \<lparr>result = Responded \<lparr>status = 500,
         payload = JObj [(''message'', JStr ''server error - contact support'')]\<rparr>,
      console = [LogText ''DB Query error on GET all'',
                 LogError \<lparr>code = ''08006'', detail = Some ''connection to 10.0.0.5 lost''\<rparr>],
      issued = [(''SELECT * FROM Birds'', [])], store = 0\<rparr>"
  using
    get_all_responses [where pool = "pg_pool Birds (\<lambda>v. [])" and db = "[american_robin]"
      and res = "\<lparr>rowCount = 1, rows = [row_json american_robin]\<rparr>" and db' = "[american_robin]"
      and request = "\<lparr>params = [], body = []\<rparr>"]
    get_all_responses [where pool = "pg_pool Birds (\<lambda>v. [])" and db = "[]"
      and res = "\<lparr>rowCount = 0, rows = []\<rparr>" and db' = "[]" and request = "\<lparr>params = [], body = []\<rparr>"]
    get_all_responses [where pool = broken_pool and db = 0 and db' = 0
      and request = "\<lparr>params = [], body = []\<rparr>"
      and err = "\<lparr>code = ''08006'', detail = Some ''connection to 10.0.0.5 lost''\<rparr>"]
  by (simp add: pg_select_all_robin pg_select_all_empty broken_pool_def)

section \<open>Properties: the responses of DELETE /\<close>

text \<open>
  C5. On the route \<^verbatim>\<open>DELETE /\<close>, for a body whose \<^verbatim>\<open>names\<close> is an array: when the
  statement resolves with a row count above zero, the response is 200 with the message
  made of the row count in decimal and \<^verbatim>\<open> bird(s) deleted successfully.\<close>, and with
  \<^verbatim>\<open>birdNames\<close> the requested array as it came, whatever the row count; when it
  resolves with a row count of zero, the response is 404 with a fixed message and the
  same array.
\<close>

theorem delete_responses:
  "(js_get (body request) ''names'' = JArr birdNames \<and>
    pool (delete_text birdNames) birdNames db = (Resolved res, db') \<and> rowCount res > 0 \<longrightarrow>
      serve (route_delete pool) request db =
        \<lparr>result = Responded \<lparr>status = 200,
            payload = JObj [(''message'', JStr (show_nat (rowCount res) @ '' bird(s) deleted successfully.'')),
                            (''birdNames'', JArr birdNames)]\<rparr>,
         console = [], issued = [(delete_text birdNames, birdNames)], store = db'\<rparr> \<and>
      read_nat (show_nat (rowCount res)) = rowCount res) \<and>
   (js_get (body request) ''names'' = JArr birdNames \<and>
    pool (delete_text birdNames) birdNames db = (Resolved res, db') \<and> rowCount res = 0 \<longrightarrow>
      serve (route_delete pool) request db =
        \<lparr>result = Responded \<lparr>status = 404,
            payload = JObj [(''message'', JStr ''No birds found with the provided names.''),
                            (''birdNames'', JArr birdNames)]\<rparr>,
         console = [], issued = [(delete_text birdNames, birdNames)], store = db'\<rparr>)"
  by (simp add: serve_delete delete_birds_def send_json_def status_send_def read_show_nat)

lemma pg_delete_robin:
  "pg_pool Birds (\<lambda>v. []) (delete_text [JStr ''AmericanRobin'', JStr ''NotARealBird''])
     [JStr ''AmericanRobin'', JStr ''NotARealBird''] [american_robin] =
     (Resolved \<lparr>rowCount = 1, rows = []\<rparr>, [])"
  by code_simp

lemma pg_delete_absent:
  "pg_pool Birds (\<lambda>v. []) (delete_text [JStr ''AmericanRobin'']) [JStr ''AmericanRobin''] [] =
     (Resolved \<lparr>rowCount = 0, rows = []\<rparr>, [])"
  by code_simp

lemma show_nat_1: "show_nat (Suc 0) = ''1''"
  by code_simp

lemma delete_text_1: "delete_text [a] = ''DELETE FROM Birds WHERE Formatted_Com_Name IN ($1);''"
  by (simp add: delete_text_def placeholders_def show_nat_1)

lemma show_nat_2: "show_nat (Suc (Suc 0)) = ''2''"
  by code_simp

lemma delete_text_2: "delete_text [a, b] = ''DELETE FROM Birds WHERE Formatted_Com_Name IN ($1,$2);''"
  by (simp add: delete_text_def placeholders_def show_nat_1 show_nat_2)

theorem delete_responses_witness:
  "serve (route_delete (pg_pool Birds (\<lambda>v. [])))
     \<lparr>params = [], body = [(''names'', JArr [JStr ''AmericanRobin'', JStr ''NotARealBird''])]\<rparr>
     [american_robin] =
     \<lparr>result = Responded \<lparr>status = 200,
         payload = JObj [(''message'', JStr ''1 bird(s) deleted successfully.''),
                         (''birdNames'', JArr [JStr ''AmericanRobin'', JStr ''NotARealBird''])]\<rparr>,
      console = [],
      issued = [(''DELETE FROM Birds WHERE Formatted_Com_Name IN ($1,$2);'',
                 [JStr ''AmericanRobin'', JStr ''NotARealBird''])],
      store = []\<rparr> \<and>
   serve (route_delete (pg_pool Birds (\<lambda>v. [])))
     \<lparr>params = [], body = [(''names'', JArr [JStr ''AmericanRobin''])]\<rparr> [] =
     \<lparr>result = Responded \<lparr>status = 404,
         payload = JObj [(''message'', JStr ''No birds found with the provided names.''),
                         (''birdNames'', JArr [JStr ''AmericanRobin''])]\<rparr>,
      console = [],
      issued = [(''DELETE FROM Birds WHERE Formatted_Com_Name IN ($1);'', [JStr ''AmericanRobin''])],
      store = []\<rparr>"
proof -
  let ?two = "[JStr ''AmericanRobin'', JStr ''NotARealBird'']"
  let ?one = "[JStr ''AmericanRobin'']"
  have "js_get (body \<lparr>params = [], body = [(''names'', JArr ?two)]\<rparr>) ''names'' = JArr ?two"
    by (simp add: js_get_def)
  with pg_delete_robin
    delete_responses [where request = "\<lparr>params = [], body = [(''names'', JArr ?two)]\<rparr>"
      and birdNames = ?two and pool = "pg_pool Birds (\<lambda>v. [])" and db = "[american_robin]"
      and res = "\<lparr>rowCount = 1, rows = []\<rparr>" and db' = "[]"]
  have a: "serve (route_delete (pg_pool Birds (\<lambda>v. []))) \<lparr>params = [], body = [(''names'', JArr ?two)]\<rparr>
      [american_robin] =
     \<lparr>result = Responded \<lparr>status = 200,
         payload = JObj [(''message'', JStr (show_nat 1 @ '' bird(s) deleted successfully.'')),
                         (''birdNames'', JArr ?two)]\<rparr>,
      console = [], issued = [(delete_text ?two, ?two)], store = []\<rparr>"
    by simp
  have "js_get (body \<lparr>params = [], body = [(''names'', JArr ?one)]\<rparr>) ''names'' = JArr ?one"
    by (simp add: js_get_def)
  with pg_delete_absent
    delete_responses [where request = "\<lparr>params = [], body = [(''names'', JArr ?one)]\<rparr>"
      and birdNames = ?one and pool = "pg_pool Birds (\<lambda>v. [])" and db = "[]"
      and res = "\<lparr>rowCount = 0, rows = []\<rparr>" and db' = "[]"]
  have b: "serve (route_delete (pg_pool Birds (\<lambda>v. []))) \<lparr>params = [], body = [(''names'', JArr ?one)]\<rparr> [] =
     \<lparr>result = Responded \<lparr>status = 404,
         payload = JObj [(''message'', JStr ''No birds found with the provided names.''),
                         (''birdNames'', JArr ?one)]\<rparr>,
      console = [], issued = [(delete_text ?one, ?one)], store = []\<rparr>"
    by simp
  show ?thesis
    unfolding a b by (simp add: show_nat_1 delete_text_1 delete_text_2)
qed

section \<open>Properties: placeholder lists\<close>

lemma count_from_upt: "count_from i xs = [Suc i..<Suc i + length xs]"
proof (induction xs arbitrary: i)
  case Nil
  then show ?case by simp
next
  case (Cons x xs)
  have "[Suc i..<Suc i + length (x # xs)] = Suc i # [Suc (Suc i)..<Suc (Suc i) + length xs]"
    by (subst upt_rec) simp
  with Cons show ?case by simp
qed

lemma count_from_nonempty: "xs \<noteq> [] \<Longrightarrow> count_from i xs \<noteq> []"
  by (cases xs) auto

lemma map_placeholder_count:
  "map_placeholder i xs = map (\<lambda>k. ''$'' @ show_nat k) (count_from i xs)"
  by (induction xs arbitrary: i) auto

lemma length_map_placeholder: "length (map_placeholder i xs) = length xs"
  by (induction xs arbitrary: i) auto

lemma placeholders_spec: "placeholders xs = spec_placeholders (length xs)"
  using count_from_upt [of 0 xs]
  by (simp add: placeholders_def spec_placeholders_def map_placeholder_count del: upt_Suc)

lemma placeholder_read_back:
  "map (\<lambda>p. (hd p, read_nat (tl p))) (map_placeholder i xs) = map (Pair (CHR ''$'')) (count_from i xs)"
  by (induction xs arbitrary: i) (auto simp: read_show_nat)

lemma digit_not_comma: "is_digit c \<Longrightarrow> c \<noteq> CHR '',''"
  by (auto simp: is_digit_def)

lemma show_nat_no_comma: "filter ((=) (CHR '','')) (show_nat n) = []"
  using show_nat_digits [of n] by (auto simp: filter_empty_conv list_all_iff dest: digit_not_comma)

lemma commas_in_placeholders:
  "length (filter ((=) (CHR '','')) (join '','' (map_placeholder i xs))) = length xs - 1"
proof (induction xs arbitrary: i)
  case Nil
  then show ?case by simp
next
  case (Cons x xs)
  then show ?case by (cases xs) (auto simp: show_nat_no_comma)
qed

lemma issued_get_by_names:
  "js_get (body request) ''birdNames'' = JArr birdNames \<Longrightarrow>
   issued (get_by_names pool request db) = [(select_text birdNames, birdNames)]"
  by (cases "pool (select_text birdNames) birdNames db"; cases "fst (pool (select_text birdNames) birdNames db)")
     (auto simp: get_by_names_def)

lemma issued_delete_birds:
  "js_get (body request) ''names'' = JArr birdNames \<Longrightarrow>
   issued (delete_birds pool request db) = [(delete_text birdNames, birdNames)]"
  by (cases "pool (delete_text birdNames) birdNames db"; cases "fst (pool (delete_text birdNames) birdNames db)")
     (auto simp: delete_birds_def)

lemma get_by_names_run:
  "js_get (body request) ''birdNames'' = JArr birdNames \<Longrightarrow>
   result (get_by_names pool request db) =
     Responded (case fst (pool (select_text birdNames) birdNames db) of
                  Resolved res \<Rightarrow> \<lparr>status = 200, payload = JArr (rows res)\<rparr>
                | Rejected err \<Rightarrow> \<lparr>status = 400, payload = error_message err\<rparr>) \<and>
   store (get_by_names pool request db) = snd (pool (select_text birdNames) birdNames db)"
  by (cases "pool (select_text birdNames) birdNames db"; cases "fst (pool (select_text birdNames) birdNames db)")
     (auto simp: get_by_names_def send_json_def status_send_def)

lemma delete_birds_run:
  "js_get (body request) ''names'' = JArr birdNames \<Longrightarrow>
   result (delete_birds pool request db) =
     Responded (case fst (pool (delete_text birdNames) birdNames db) of
                  Resolved res \<Rightarrow>
                    if rowCount res > 0
                    then \<lparr>status = 200,
                          payload = JObj [(''message'', JStr (show_nat (rowCount res) @ '' bird(s) deleted successfully.'')),
                                          (''birdNames'', JArr birdNames)]\<rparr>
                    else \<lparr>status = 404,
                          payload = JObj [(''message'', JStr ''No birds found with the provided names.''),
                                          (''birdNames'', JArr birdNames)]\<rparr>
                | Rejected err \<Rightarrow> \<lparr>status = 400, payload = error_message err\<rparr>) \<and>
   store (delete_birds pool request db) = snd (pool (delete_text birdNames) birdNames db)"
  by (cases "pool (delete_text birdNames) birdNames db"; cases "fst (pool (delete_text birdNames) birdNames db)")
     (auto simp: delete_birds_def send_json_def status_send_def)

text \<open>
  C9. For every non-empty array of \<open>n\<close> names, the placeholder list built by the lookup
  and the delete handler is what the spec's words describe, \<^verbatim>\<open>$1\<close> through \<^verbatim>\<open>$n\<close>
  joined by commas: it has one placeholder per name, the \<open>k\<close>-th is \<^verbatim>\<open>$\<close> followed by
  the decimal numeral of \<open>k\<close>, and there are \<open>n - 1\<close> commas. Each handler calls the pool
  once, with the statement that has this list in its \<^verbatim>\<open>IN\<close> clause and with the names,
  in the order of the array, as its values: for every pool, the response and the next
  state of the store are those of the pool's reply to that call, and a pool that keeps
  the calls it receives has received exactly that one.
\<close>

theorem placeholders_one_per_name:
  "birdNames \<noteq> [] \<longrightarrow>
     placeholders birdNames = spec_placeholders (length birdNames) \<and>
     length (map_placeholder 0 birdNames) = length birdNames \<and>
     map (\<lambda>p. (hd p, read_nat (tl p))) (map_placeholder 0 birdNames) =
       map (Pair (CHR ''$'')) [1..<Suc (length birdNames)] \<and>
     length (filter ((=) (CHR '','')) (placeholders birdNames)) = length birdNames - 1 \<and>
     (js_get (body request) ''birdNames'' = JArr birdNames \<longrightarrow>
        issued (get_by_names pool request db) =
          [(''SELECT * FROM Birds WHERE Formatted_Com_Name IN ('' @ placeholders birdNames @ '');'',
            birdNames)] \<and>
        result (get_by_names pool request db) =
          Responded
            (case fst (pool (''SELECT * FROM Birds WHERE Formatted_Com_Name IN ('' @
                              placeholders birdNames @ '');'') birdNames db) of
               Resolved res \<Rightarrow> \<lparr>status = 200, payload = JArr (rows res)\<rparr>
             | Rejected err \<Rightarrow> \<lparr>status = 400, payload = error_message err\<rparr>) \<and>
        store (get_by_names pool request db) =
          snd (pool (''SELECT * FROM Birds WHERE Formatted_Com_Name IN ('' @
                     placeholders birdNames @ '');'') birdNames db) \<and>
        store (get_by_names (recording_pool reply) request calls) =
          calls @ [(''SELECT * FROM Birds WHERE Formatted_Com_Name IN ('' @ placeholders birdNames @ '');'',
                    birdNames)]) \<and>
     (js_get (body request) ''names'' = JArr birdNames \<longrightarrow>
        issued (delete_birds pool request db) =
          [(''DELETE FROM Birds WHERE Formatted_Com_Name IN ('' @ placeholders birdNames @ '');'',
            birdNames)] \<and>
        result (delete_birds pool request db) =
          Responded
            (case fst (pool (''DELETE FROM Birds WHERE Formatted_Com_Name IN ('' @
                              placeholders birdNames @ '');'') birdNames db) of
               Resolved res \<Rightarrow>
                 if rowCount res > 0
                 then \<lparr>status = 200,
                       payload = JObj [(''message'', JStr (show_nat (rowCount res) @ '' bird(s) deleted successfully.'')),
                                       (''birdNames'', JArr birdNames)]\<rparr>
                 else \<lparr>status = 404,
                       payload = JObj [(''message'', JStr ''No birds found with the provided names.''),
                                       (''birdNames'', JArr birdNames)]\<rparr>
             | Rejected err \<Rightarrow> \<lparr>status = 400, payload = error_message err\<rparr>) \<and>
        store (delete_birds pool request db) =
          snd (pool (''DELETE FROM Birds WHERE Formatted_Com_Name IN ('' @
                     placeholders birdNames @ '');'') birdNames db) \<and>
        store (delete_birds (recording_pool reply) request calls) =
          calls @ [(''DELETE FROM Birds WHERE Formatted_Com_Name IN ('' @ placeholders birdNames @ '');'',
                    birdNames)])"
proof (intro impI conjI)
  show "placeholders birdNames = spec_placeholders (length birdNames)"
    by (rule placeholders_spec)
  show "length (map_placeholder 0 birdNames) = length birdNames"
    by (rule length_map_placeholder)
  show "map (\<lambda>p. (hd p, read_nat (tl p))) (map_placeholder 0 birdNames) =
       map (Pair (CHR ''$'')) [1..<Suc (length birdNames)]"
    using count_from_upt [of 0 birdNames] by (simp add: placeholder_read_back del: upt_Suc)
  show "length (filter ((=) (CHR '','')) (placeholders birdNames)) = length birdNames - 1"
    by (simp add: placeholders_def commas_in_placeholders)
next
  assume a: "js_get (body request) ''birdNames'' = JArr birdNames"
  then show "issued (get_by_names pool request db) =
          [(''SELECT * FROM Birds WHERE Formatted_Com_Name IN ('' @ placeholders birdNames @ '');'',
            birdNames)]"
    by (simp add: issued_get_by_names select_text_def)
  from a show "result (get_by_names pool request db) =
          Responded
            (case fst (pool (''SELECT * FROM Birds WHERE Formatted_Com_Name IN ('' @
                              placeholders birdNames @ '');'') birdNames db) of
               Resolved res \<Rightarrow> \<lparr>status = 200, payload = JArr (rows res)\<rparr>
             | Rejected err \<Rightarrow> \<lparr>status = 400, payload = error_message err\<rparr>)"
    using get_by_names_run [of request birdNames pool db] by (simp add: select_text_def)
  from a show "store (get_by_names pool request db) =
          snd (pool (''SELECT * FROM Birds WHERE Formatted_Com_Name IN ('' @
                     placeholders birdNames @ '');'') birdNames db)"
    using get_by_names_run [of request birdNames pool db] by (simp add: select_text_def)
  from a show "store (get_by_names (recording_pool reply) request calls) =
          calls @ [(''SELECT * FROM Birds WHERE Formatted_Com_Name IN ('' @ placeholders birdNames @ '');'',
                    birdNames)]"
    using get_by_names_run [of request birdNames "recording_pool reply" calls]
    by (simp add: select_text_def recording_pool_def)
next
  assume a: "js_get (body request) ''names'' = JArr birdNames"
  then show "issued (delete_birds pool request db) =
          [(''DELETE FROM Birds WHERE Formatted_Com_Name IN ('' @ placeholders birdNames @ '');'',
            birdNames)]"
    by (simp add: issued_delete_birds delete_text_def)
  from a show "result (delete_birds pool request db) =
          Responded
            (case fst (pool (''DELETE FROM Birds WHERE Formatted_Com_Name IN ('' @
                              placeholders birdNames @ '');'') birdNames db) of
               Resolved res \<Rightarrow>
                 if rowCount res > 0
                 then \<lparr>status = 200,
                       payload = JObj [(''message'', JStr (show_nat (rowCount res) @ '' bird(s) deleted successfully.'')),
                                       (''birdNames'', JArr birdNames)]\<rparr>
                 else \<lparr>status = 404,
                       payload = JObj [(''message'', JStr ''No birds found with the provided names.''),
                                       (''birdNames'', JArr birdNames)]\<rparr>
             | Rejected err \<Rightarrow> \<lparr>status = 400, payload = error_message err\<rparr>)"
    using delete_birds_run [of request birdNames pool db] by (simp add: delete_text_def)
  from a show "store (delete_birds pool request db) =
          snd (pool (''DELETE FROM Birds WHERE Formatted_Com_Name IN ('' @
                     placeholders birdNames @ '');'') birdNames db)"
    using delete_birds_run [of request birdNames pool db] by (simp add: delete_text_def)
  from a show "store (delete_birds (recording_pool reply) request calls) =
          calls @ [(''DELETE FROM Birds WHERE Formatted_Com_Name IN ('' @ placeholders birdNames @ '');'',
                    birdNames)]"
    using delete_birds_run [of request birdNames "recording_pool reply" calls]
    by (simp add: delete_text_def recording_pool_def)
qed

lemma show_nat_3: "show_nat (Suc (Suc (Suc 0))) = ''3''"
  by code_simp

theorem placeholders_one_per_name_witness:
  "placeholders [JStr ''AmericanRobin'', JStr ''NotARealBird'', JStr ''BlueJay''] = ''$1,$2,$3'' \<and>
   spec_placeholders 3 = ''$1,$2,$3'' \<and>
   issued (get_by_names broken_pool
     \<lparr>params = [], body = [(''birdNames'', JArr [JStr ''AmericanRobin'', JStr ''NotARealBird'', JStr ''BlueJay''])]\<rparr> 0) =
     [(''SELECT * FROM Birds WHERE Formatted_Com_Name IN ($1,$2,$3);'',
       [JStr ''AmericanRobin'', JStr ''NotARealBird'', JStr ''BlueJay''])] \<and>
   store (get_by_names (recording_pool (Resolved \<lparr>rowCount = 0, rows = []\<rparr>))
     \<lparr>params = [], body = [(''birdNames'', JArr [JStr ''AmericanRobin'', JStr ''NotARealBird'', JStr ''BlueJay''])]\<rparr> []) =
     [(''SELECT * FROM Birds WHERE Formatted_Com_Name IN ($1,$2,$3);'',
       [JStr ''AmericanRobin'', JStr ''NotARealBird'', JStr ''BlueJay''])] \<and>
   issued (delete_birds broken_pool
     \<lparr>params = [], body = [(''names'', JArr [JStr ''AmericanRobin'', JStr ''NotARealBird'', JStr ''BlueJay''])]\<rparr> 0) =
     [(''DELETE FROM Birds WHERE Formatted_Com_Name IN ($1,$2,$3);'',
       [JStr ''AmericanRobin'', JStr ''NotARealBird'', JStr ''BlueJay''])] \<and>
   store (delete_birds (recording_pool (Resolved \<lparr>rowCount = 0, rows = []\<rparr>))
     \<lparr>params = [], body = [(''names'', JArr [JStr ''AmericanRobin'', JStr ''NotARealBird'', JStr ''BlueJay''])]\<rparr> []) =
     [(''DELETE FROM Birds WHERE Formatted_Com_Name IN ($1,$2,$3);'',
       [JStr ''AmericanRobin'', JStr ''NotARealBird'', JStr ''BlueJay''])]"
proof -
  let ?names = "[JStr ''AmericanRobin'', JStr ''NotARealBird'', JStr ''BlueJay'']"
  have p: "placeholders ?names = ''$1,$2,$3''"
    by (simp add: placeholders_def show_nat_1 show_nat_2 show_nat_3)
  show ?thesis
    using
      placeholders_one_per_name [where birdNames = ?names and pool = broken_pool and db = 0
        and reply = "Resolved \<lparr>rowCount = 0, rows = []\<rparr>" and calls = "[]"
        and request = "\<lparr>params = [], body = [(''birdNames'', JArr ?names)]\<rparr>"]
      placeholders_one_per_name [where birdNames = ?names and pool = broken_pool and db = 0
        and reply = "Resolved \<lparr>rowCount = 0, rows = []\<rparr>" and calls = "[]"
        and request = "\<lparr>params = [], body = [(''names'', JArr ?names)]\<rparr>"]
    by (simp add: js_get_def p numeral_3_eq_3)
qed

section \<open>Properties: how the store reads the statements of the router\<close>

declare sql_lex.simps [simp del]

lemma takeWhile_all: "list_all P ds \<Longrightarrow> \<not> P c \<Longrightarrow> takeWhile P (ds @ c # rest) = ds"
  by (induction ds) auto

lemma dropWhile_all: "list_all P ds \<Longrightarrow> \<not> P c \<Longrightarrow> dropWhile P (ds @ c # rest) = c # rest"
  by (induction ds) auto

lemma lex_param:
  assumes "\<not> is_digit c"
  shows "sql_lex (''$'' @ show_nat n @ c # rest) = map_option ((#) (TParam n)) (sql_lex (c # rest))"
  using assms show_nat_digits [of n] show_nat_nonempty [of n]
  by (simp add: sql_lex.simps takeWhile_all dropWhile_all read_show_nat is_space_def)

lemma lex_comma: "sql_lex (CHR '','' # rest) = map_option ((#) TComma) (sql_lex rest)"
  by (simp add: sql_lex.simps is_space_def is_letter_def punct_def)

lemma lex_rparen: "sql_lex (CHR '')'' # rest) = map_option ((#) TRParen) (sql_lex rest)"
  by (simp add: sql_lex.simps is_space_def is_letter_def punct_def)

lemma lex_semi: "sql_lex '';'' = Some [TSemi]"
  by (simp add: sql_lex.simps is_space_def is_letter_def punct_def)

lemma lex_placeholders:
  "xs \<noteq> [] \<Longrightarrow>
   sql_lex (join '','' (map_placeholder i xs) @ CHR '')'' # rest) =
     map_option (\<lambda>ts. comma_params (count_from i xs) @ TRParen # ts) (sql_lex rest)"
proof (induction xs arbitrary: i)
  case Nil
  then show ?case by simp
next
  case (Cons x xs)
  show ?case
  proof (cases xs)
    case Nil
    have "\<not> is_digit (CHR '')'')" by (simp add: is_digit_def)
    then show ?thesis
      using Nil lex_param [of "CHR '')''" "i + 1" rest]
      by (simp add: lex_rparen option.map_comp comp_def)
  next
    case (Cons y ys)
    have nd: "\<not> is_digit (CHR '','')" by (simp add: is_digit_def)
    have "sql_lex (join '','' (map_placeholder (Suc i) xs) @ CHR '')'' # rest) =
      map_option (\<lambda>ts. comma_params (count_from (Suc i) xs) @ TRParen # ts) (sql_lex rest)"
      using Cons.IH [of "Suc i"] Cons by simp
    then show ?thesis
      using Cons lex_param [OF nd, of "i + 1" "join '','' (map_placeholder (Suc i) xs) @ CHR '')'' # rest"]
      by (simp add: lex_comma option.map_comp comp_def)
  qed
qed

lemma lex_tail:
  "xs \<noteq> [] \<Longrightarrow> sql_lex (join '','' (map_placeholder 0 xs) @ '');'') =
     Some (comma_params (count_from 0 xs) @ [TRParen, TSemi])"
  using lex_placeholders [of xs 0 "'';''"] by (simp add: lex_semi)

lemma parse_comma_params:
  "ns \<noteq> [] \<Longrightarrow> parse_params (comma_params ns @ TRParen # ts) = Some (ns, ts)"
  by (induction ns rule: comma_params.induct) auto

lemma lex_select_prefix:
  "sql_lex (''SELECT * FROM Birds WHERE Formatted_Com_Name IN ('' @ s) =
     map_option (\<lambda>ts. [TWord ''select'', TStar, TWord ''from'', TWord ''birds'', TWord ''where'',
        TWord ''formatted_com_name'', TWord ''in'', TLParen] @ ts) (sql_lex s)"
  by (simp add: sql_lex.simps is_space_def is_letter_def is_digit_def punct_def lower_def option.map_comp comp_def)

lemma lex_delete_prefix:
  "sql_lex (''DELETE FROM Birds WHERE Formatted_Com_Name IN ('' @ s) =
     map_option (\<lambda>ts. [TWord ''delete'', TWord ''from'', TWord ''birds'', TWord ''where'',
        TWord ''formatted_com_name'', TWord ''in'', TLParen] @ ts) (sql_lex s)"
  by (simp add: sql_lex.simps is_space_def is_letter_def is_digit_def punct_def lower_def option.map_comp comp_def)

lemma lex_select_text:
  assumes "names \<noteq> []"
  shows "sql_lex (select_text names) =
     Some ([TWord ''select'', TStar, TWord ''from'', TWord ''birds'', TWord ''where'',
        TWord ''formatted_com_name'', TWord ''in'', TLParen] @
        comma_params (count_from 0 names) @ [TRParen, TSemi])"
  unfolding select_text_def placeholders_def lex_select_prefix lex_tail [OF assms]
  by simp

lemma lex_delete_text:
  assumes "names \<noteq> []"
  shows "sql_lex (delete_text names) =
     Some ([TWord ''delete'', TWord ''from'', TWord ''birds'', TWord ''where'',
        TWord ''formatted_com_name'', TWord ''in'', TLParen] @
        comma_params (count_from 0 names) @ [TRParen, TSemi])"
  unfolding delete_text_def placeholders_def lex_delete_prefix lex_tail [OF assms]
  by simp

lemma parse_select_text:
  assumes "names \<noteq> []"
  shows "Option.bind (sql_lex (select_text names)) sql_parse =
     Some (SelectIn ''birds'' ''formatted_com_name'' [1..<Suc (length names)])"
proof -
  have "parse_params (comma_params (count_from 0 names) @ TRParen # [TSemi]) =
      Some (count_from 0 names, [TSemi])"
    by (rule parse_comma_params) (rule count_from_nonempty [OF assms])
  then have "sql_parse ([TWord ''select'', TStar, TWord ''from'', TWord ''birds'', TWord ''where'',
        TWord ''formatted_com_name'', TWord ''in'', TLParen] @
        comma_params (count_from 0 names) @ [TRParen, TSemi]) =
      Some (SelectIn ''birds'' ''formatted_com_name'' (count_from 0 names))"
    by (simp add: sql_parse_def parse_select_def parse_where_in_def at_end_def)
  then show ?thesis
    by (simp only: lex_select_text [OF assms] count_from_upt) simp
qed

lemma parse_delete_text:
  assumes "names \<noteq> []"
  shows "Option.bind (sql_lex (delete_text names)) sql_parse =
     Some (DeleteIn ''birds'' ''formatted_com_name'' [1..<Suc (length names)])"
proof -
  have "parse_params (comma_params (count_from 0 names) @ TRParen # [TSemi]) =
      Some (count_from 0 names, [TSemi])"
    by (rule parse_comma_params) (rule count_from_nonempty [OF assms])
  then have "sql_parse ([TWord ''delete'', TWord ''from'', TWord ''birds'', TWord ''where'',
        TWord ''formatted_com_name'', TWord ''in'', TLParen] @
        comma_params (count_from 0 names) @ [TRParen, TSemi]) =
      Some (DeleteIn ''birds'' ''formatted_com_name'' (count_from 0 names))"
    by (simp add: sql_parse_def parse_delete_def parse_where_in_def at_end_def)
  then show ?thesis
    by (simp only: lex_delete_text [OF assms] count_from_upt) simp
qed

lemma parse_select_empty: "Option.bind (sql_lex (select_text [])) sql_parse = None"
  by code_simp

lemma parse_delete_empty: "Option.bind (sql_lex (delete_text [])) sql_parse = None"
  by code_simp

lemma parse_insert_text:
  "Option.bind (sql_lex insert_text) sql_parse =
     Some (InsertReturning ''birds''
       [''formatted_com_name'', ''com_name'', ''sci_name'', ''preview_photo'', ''male_breeding_photo'',
        ''male_nonbreeding_photo'', ''female_photo'', ''sound'', ''short_desc'', ''long_desc'',
        ''how_to_find'', ''habitat'', ''learn_more_link'']
       [1, 2, 3, 4, 5, 6, 7, 8, 9, 10, 11, 12, 13])"
  by code_simp

lemma parse_update_text:
  "Option.bind (sql_lex update_text) sql_parse =
     Some (UpdateReturning ''birds''
       [(''com_name'', 1), (''sci_name'', 2), (''preview_photo'', 3), (''male_breeding_photo'', 4),
        (''male_nonbreeding_photo'', 5), (''female_photo'', 6), (''sound'', 7), (''short_desc'', 8),
        (''long_desc'', 9), (''how_to_find'', 10), (''habitat'', 11), (''learn_more_link'', 12)]
       ''formatted_com_name'' 13)"
  by code_simp

section \<open>Properties: the statements against the table\<close>

lemma Birds_relation: "fold_ident (relname Birds) = ''birds''"
  by code_simp

lemma Birds_columns:
  "column_names Birds =
     [''formatted_com_name'', ''com_name'', ''sci_name'', ''preview_photo'', ''male_breeding_photo'',
      ''male_nonbreeding_photo'', ''female_photo'', ''sound'', ''short_desc'', ''long_desc'',
      ''how_to_find'', ''learn_more_link'']"
  by code_simp

lemma habitat_not_declared: "''habitat'' \<notin> set (column_names Birds)"
  by (simp add: Birds_columns)

lemma undeclared_column_rejected:
  "relation_of s = ''birds'' \<Longrightarrow> c \<in> set (columns_of s) \<Longrightarrow> c \<notin> set (column_names Birds) \<Longrightarrow>
   analyse Birds s = Some (failure ''42703'')"
  by (auto simp: analyse_def Birds_relation list_all_iff)

lemma highest_param: "fold max [Suc 0..<Suc n] 0 = n"
  by (induction n) (auto simp: max_def)

lemma analyse_select_in:
  "n \<noteq> 0 \<Longrightarrow> analyse Birds (SelectIn ''birds'' ''formatted_com_name'' [Suc 0..<Suc n]) = None"
  by (simp add: analyse_def Birds_relation Birds_columns highest_param list_all_iff del: upt_Suc)

lemma analyse_delete_in:
  "n \<noteq> 0 \<Longrightarrow> analyse Birds (DeleteIn ''birds'' ''formatted_com_name'' [Suc 0..<Suc n]) = None"
  by (simp add: analyse_def Birds_relation Birds_columns highest_param list_all_iff del: upt_Suc)

lemma bound_values: "map (\<lambda>p. vals ! (p - Suc 0)) [Suc 0..<Suc (length vals)] = vals"
proof -
  have "[Suc 0..<Suc (length vals)] = map Suc [0..<length vals]"
    by (simp add: map_Suc_upt del: upt_Suc)
  then show ?thesis
    by (simp add: comp_def map_nth del: upt_Suc)
qed

lemma matches_in_all:
  "matches_in vals c [Suc 0..<Suc (length vals)] =
     (\<lambda>r. cell r c \<noteq> Null \<and> cell r c \<in> set vals)"
proof (rule ext)
  fix r
  have "matches_in vals c [Suc 0..<Suc (length vals)] r =
      (cell r c \<noteq> Null \<and> cell r c \<in> set (map (\<lambda>p. vals ! (p - Suc 0)) [Suc 0..<Suc (length vals)]))"
    by (simp add: matches_in_def del: upt_Suc)
  then show "matches_in vals c [Suc 0..<Suc (length vals)] r = (cell r c \<noteq> Null \<and> cell r c \<in> set vals)"
    by (simp only: bound_values)
qed

section \<open>Properties: the pool on the statements of the router\<close>

lemma pg_select_in:
  assumes "names \<noteq> []"
  shows "pg_pool Birds enc (select_text names) names db =
     (Resolved
        \<lparr>rowCount = length [r \<leftarrow> db. cell r ''formatted_com_name'' \<noteq> Null \<and>
                                  cell r ''formatted_com_name'' \<in> set (map (prepareValue enc) names)],
         rows = map row_json [r \<leftarrow> db. cell r ''formatted_com_name'' \<noteq> Null \<and>
                                  cell r ''formatted_com_name'' \<in> set (map (prepareValue enc) names)]\<rparr>,
      db)"
  using assms matches_in_all [of "map (prepareValue enc) names" "''formatted_com_name''"]
  by (simp add: pg_pool_def sql_run_def parse_select_text analyse_select_in highest_param
      del: upt_Suc)

lemma pg_delete_in:
  assumes "names \<noteq> []"
  shows "pg_pool Birds enc (delete_text names) names db =
     (Resolved
        \<lparr>rowCount = length [r \<leftarrow> db. cell r ''formatted_com_name'' \<noteq> Null \<and>
                                  cell r ''formatted_com_name'' \<in> set (map (prepareValue enc) names)],
         rows = []\<rparr>,
      [r \<leftarrow> db. \<not> (cell r ''formatted_com_name'' \<noteq> Null \<and>
                   cell r ''formatted_com_name'' \<in> set (map (prepareValue enc) names))])"
  using assms matches_in_all [of "map (prepareValue enc) names" "''formatted_com_name''"]
  by (simp add: pg_pool_def sql_run_def parse_delete_text analyse_delete_in highest_param
      del: upt_Suc)

lemma pg_select_empty:
  "pg_pool Birds enc (select_text []) [] db = (Rejected (failure ''42601''), db)"
  by (simp add: pg_pool_def sql_run_def parse_select_empty)

lemma pg_delete_empty:
  "pg_pool Birds enc (delete_text []) [] db = (Rejected (failure ''42601''), db)"
  by (simp add: pg_pool_def sql_run_def parse_delete_empty)

lemma pg_insert:
  "pg_pool Birds enc insert_text vals db = (Rejected (failure ''42703''), db)"
  unfolding pg_pool_def sql_run_def parse_insert_text
  by (simp add: undeclared_column_rejected [where c = "''habitat''"] habitat_not_declared)

lemma pg_update:
  "pg_pool Birds enc update_text vals db = (Rejected (failure ''42703''), db)"
  unfolding pg_pool_def sql_run_def parse_update_text
  by (simp add: undeclared_column_rejected [where c = "''habitat''"] habitat_not_declared)

lemma undefined_message: "error_message (failure c) = JObj [(''message'', JStr ''Error: undefined'')]"
  by (simp add: error_message_def failure_def)

section \<open>Properties: GET / on the store\<close>

lemma prepare_strings: "map (prepareValue enc) (map JStr names) = map Text names"
  by (simp add: prepareValue_def)

lemma get_by_names_strings:
  assumes "names \<noteq> []" and "js_get (body request) ''birdNames'' = JArr (map JStr names)"
  shows "get_by_names (pg_pool Birds enc) request db =
       \<lparr>result = Responded \<lparr>status = 200,
           payload = JArr (map row_json [r \<leftarrow> db. primary_key r \<in> Text ` set names])\<rparr>,
        console = [], issued = [(select_text (map JStr names), map JStr names)], store = db\<rparr>"
proof -
  have f: "(\<lambda>r. cell r ''formatted_com_name'' \<noteq> Null \<and> cell r ''formatted_com_name'' \<in> Text ` set names) =
      (\<lambda>r. primary_key r \<in> Text ` set names)"
    by (auto simp: primary_key_def)
  have "pg_pool Birds enc (select_text (map JStr names)) (map JStr names) db =
     (Resolved \<lparr>rowCount = length [r \<leftarrow> db. primary_key r \<in> Text ` set names],
                rows = map row_json [r \<leftarrow> db. primary_key r \<in> Text ` set names]\<rparr>, db)"
    using assms(1) pg_select_in [of "map JStr names" enc db]
    by (simp only: prepare_strings set_map f) simp
  with assms(2) show ?thesis
    by (simp add: get_by_names_def send_json_def)
qed

lemma count_present:
  assumes "distinct (keys db)"
  shows "length [r \<leftarrow> db. primary_key r \<in> Text ` set names] =
     length (remdups [n \<leftarrow> names. Text n \<in> set (keys db)])"
proof -
  have "length [r \<leftarrow> db. primary_key r \<in> Text ` set names] =
      length [k \<leftarrow> keys db. k \<in> Text ` set names]"
    by (simp add: keys_def filter_map comp_def)
  also have "\<dots> = card (set [k \<leftarrow> keys db. k \<in> Text ` set names])"
    using assms by (intro distinct_card [symmetric] distinct_filter)
  also have "set [k \<leftarrow> keys db. k \<in> Text ` set names] = Text ` set [n \<leftarrow> names. Text n \<in> set (keys db)]"
    by auto
  also have "card (Text ` set [n \<leftarrow> names. Text n \<in> set (keys db)]) =
      card (set [n \<leftarrow> names. Text n \<in> set (keys db)])"
    by (rule card_image) (simp add: inj_on_def)
  also have "\<dots> = length (remdups [n \<leftarrow> names. Text n \<in> set (keys db)])"
    by (simp add: length_remdups_card_conv)
  finally show ?thesis .
qed

text \<open>
  C4, as amended. For every lookup whose body field \<^verbatim>\<open>birdNames\<close> is a non-empty array
  of \<open>N\<close> strings, the handler responds 200 with exactly the stored rows whose key is
  among the names, whatever their number, zero included; it issues one \<^verbatim>\<open>SELECT\<close> and
  leaves the store as it was. On the route the same holds when \<^verbatim>\<open>birds\<close> is an array.
  When the keys of the stored rows are distinct, the number of rows is \<open>M\<close>, the number of
  distinct supplied names that are keys of the store, and \<open>M \<le> N\<close>. Every returned row is
  a stored row: no row stands in for a missing name.
\<close>

theorem lookup_returns_stored_rows:
  "names \<noteq> [] \<and> js_get (body request) ''birdNames'' = JArr (map JStr names) \<longrightarrow>
     get_by_names (pg_pool Birds enc) request db =
       \<lparr>result = Responded \<lparr>status = 200,
           payload = JArr (map row_json [r \<leftarrow> db. primary_key r \<in> Text ` set names])\<rparr>,
        console = [], issued = [(select_text (map JStr names), map JStr names)], store = db\<rparr> \<and>
     (isArray (js_get (body request) ''birds'') \<longrightarrow>
        serve (route_get_by_names (pg_pool Birds enc)) request db =
          get_by_names (pg_pool Birds enc) request db) \<and>
     (distinct (keys db) \<longrightarrow>
        length [r \<leftarrow> db. primary_key r \<in> Text ` set names] =
          length (remdups [n \<leftarrow> names. Text n \<in> set (keys db)])) \<and>
     length (remdups [n \<leftarrow> names. Text n \<in> set (keys db)]) \<le> length names \<and>
     set [r \<leftarrow> db. primary_key r \<in> Text ` set names] \<subseteq> set db"
proof (intro impI conjI)
  assume a: "names \<noteq> [] \<and> js_get (body request) ''birdNames'' = JArr (map JStr names)"
  then show "get_by_names (pg_pool Birds enc) request db =
       \<lparr>result = Responded \<lparr>status = 200,
           payload = JArr (map row_json [r \<leftarrow> db. primary_key r \<in> Text ` set names])\<rparr>,
        console = [], issued = [(select_text (map JStr names), map JStr names)], store = db\<rparr>"
    by (simp add: get_by_names_strings)
  show "length (remdups [n \<leftarrow> names. Text n \<in> set (keys db)]) \<le> length names"
    by (rule order_trans [OF length_remdups_leq]) simp
  show "set [r \<leftarrow> db. primary_key r \<in> Text ` set names] \<subseteq> set db"
    by auto
next
  assume "isArray (js_get (body request) ''birds'')"
  then show "serve (route_get_by_names (pg_pool Birds enc)) request db =
          get_by_names (pg_pool Birds enc) request db"
    by (simp add: serve_get_by_names)
next
  assume "distinct (keys db)"
  then show "length [r \<leftarrow> db. primary_key r \<in> Text ` set names] =
          length (remdups [n \<leftarrow> names. Text n \<in> set (keys db)])"
    by (rule count_present)
qed

lemma robin_key: "primary_key american_robin = Text ''AmericanRobin''"
  by (simp add: primary_key_def cell_def american_robin_def)

lemma select_text_1: "select_text [a] = ''SELECT * FROM Birds WHERE Formatted_Com_Name IN ($1);''"
  by (simp add: select_text_def placeholders_def show_nat_1)

lemma select_text_2: "select_text [a, b] = ''SELECT * FROM Birds WHERE Formatted_Com_Name IN ($1,$2);''"
  by (simp add: select_text_def placeholders_def show_nat_1 show_nat_2)

theorem lookup_returns_stored_rows_witness:
  "serve (route_get_by_names (pg_pool Birds (\<lambda>v. [])))
     \<lparr>params = [], body = [(''birds'', JArr []),
                           (''birdNames'', JArr [JStr ''AmericanRobin'', JStr ''NotARealBird''])]\<rparr>
     [american_robin] =
     \<lparr>result = Responded \<lparr>status = 200, payload = JArr [row_json american_robin]\<rparr>,
      console = [],
      issued = [(''SELECT * FROM Birds WHERE Formatted_Com_Name IN ($1,$2);'',
                 [JStr ''AmericanRobin'', JStr ''NotARealBird''])],
      store = [american_robin]\<rparr> \<and>
   distinct (keys [american_robin]) \<and>
   length [r \<leftarrow> [american_robin]. primary_key r \<in> Text ` set [''AmericanRobin'', ''NotARealBird'']] = 1 \<and>
   length (remdups [n \<leftarrow> [''AmericanRobin'', ''NotARealBird'']. Text n \<in> set (keys [american_robin])]) = 1 \<and>
   get_by_names (pg_pool Birds (\<lambda>v. []))
     \<lparr>params = [], body = [(''birdNames'', JArr [JStr ''NotARealBird''])]\<rparr> [american_robin] =
     \<lparr>result = Responded \<lparr>status = 200, payload = JArr []\<rparr>,
      console = [],
      issued = [(''SELECT * FROM Birds WHERE Formatted_Com_Name IN ($1);'', [JStr ''NotARealBird''])],
      store = [american_robin]\<rparr>"
  using
    lookup_returns_stored_rows [where names = "[''AmericanRobin'', ''NotARealBird'']"
      and enc = "\<lambda>v. []" and db = "[american_robin]"
      and request = "\<lparr>params = [], body = [(''birds'', JArr []),
                           (''birdNames'', JArr [JStr ''AmericanRobin'', JStr ''NotARealBird''])]\<rparr>"]
    lookup_returns_stored_rows [where names = "[''NotARealBird'']"
      and enc = "\<lambda>v. []" and db = "[american_robin]"
      and request = "\<lparr>params = [], body = [(''birdNames'', JArr [JStr ''NotARealBird''])]\<rparr>"]
  by (simp add: js_get_def keys_def robin_key select_text_1 select_text_2)

lemma get_by_names_empty:
  "js_get (body request) ''birdNames'' = JArr [] \<Longrightarrow>
   get_by_names (pg_pool Birds enc) request db =
     \<lparr>result = Responded \<lparr>status = 400, payload = JObj [(''message'', JStr ''Error: undefined'')]\<rparr>,
      console = [], issued = [(''SELECT * FROM Birds WHERE Formatted_Com_Name IN ();'', [])], store = db\<rparr>"
proof -
  have "select_text [] = ''SELECT * FROM Birds WHERE Formatted_Com_Name IN ();''"
    by (simp add: select_text_def placeholders_def)
  then show "js_get (body request) ''birdNames'' = JArr [] \<Longrightarrow> ?thesis"
    using pg_select_empty [of enc db]
    by (simp add: get_by_names_def status_send_def undefined_message)
qed

text \<open>
  C4, as stated, fails at two inputs. With an empty array no name is supplied and none
  is present, and the response is 400, not 200. With the array
  \<^verbatim>\<open>["AmericanRobin", "AmericanRobin"]\<close> and that bird stored, both supplied names are
  present and one row is returned, not two.
\<close>

theorem lookup_count_counterexample:
  "result (serve (route_get_by_names (pg_pool Birds (\<lambda>v. [])))
     \<lparr>params = [], body = [(''birds'', JArr []), (''birdNames'', JArr [])]\<rparr> [american_robin]) =
     Responded \<lparr>status = 400, payload = JObj [(''message'', JStr ''Error: undefined'')]\<rparr> \<and>
   length [n \<leftarrow> [''AmericanRobin'', ''AmericanRobin'']. Text n \<in> set (keys [american_robin])] = 2 \<and>
   result (serve (route_get_by_names (pg_pool Birds (\<lambda>v. [])))
     \<lparr>params = [], body = [(''birds'', JArr []),
                           (''birdNames'', JArr [JStr ''AmericanRobin'', JStr ''AmericanRobin''])]\<rparr>
     [american_robin]) =
     Responded \<lparr>status = 200, payload = JArr [row_json american_robin]\<rparr>"
proof -
  let ?names = "[''AmericanRobin'', ''AmericanRobin'']"
  let ?r = "\<lparr>params = [], body = [(''birds'', JArr []), (''birdNames'', JArr (map JStr ?names))]\<rparr>"
  have "get_by_names (pg_pool Birds (\<lambda>v. [])) ?r [american_robin] =
       \<lparr>result = Responded \<lparr>status = 200,
           payload = JArr (map row_json [r \<leftarrow> [american_robin]. primary_key r \<in> Text ` set ?names])\<rparr>,
        console = [], issued = [(select_text (map JStr ?names), map JStr ?names)], store = [american_robin]\<rparr>"
    by (rule get_by_names_strings) (simp_all add: js_get_def)
  then show ?thesis
    by (simp add: serve_get_by_names get_by_names_empty js_get_def keys_def robin_key)
qed

text \<open>
  C2. The claim: a lookup with an empty array answers 200 with an empty result. On the
  code: the request passes validation, the handler issues a \<^verbatim>\<open>SELECT\<close> whose \<^verbatim>\<open>IN\<close>
  list is empty, the store rejects it as a syntax error, which carries no detail, and
  the response is 400 with the message \<^verbatim>\<open>Error: undefined\<close>.
\<close>

theorem lookup_empty_array_rejected:
  "serve (route_get_by_names (pg_pool Birds enc))
     \<lparr>params = [], body = [(''birds'', JArr []), (''birdNames'', JArr [])]\<rparr> db =
     \<lparr>result = Responded \<lparr>status = 400, payload = JObj [(''message'', JStr ''Error: undefined'')]\<rparr>,
      console = [], issued = [(''SELECT * FROM Birds WHERE Formatted_Com_Name IN ();'', [])], store = db\<rparr>"
  by (simp add: serve_get_by_names get_by_names_empty js_get_def)

section \<open>Properties: POST / and PUT /:formattedComName on the store\<close>

lemma serve_post: "serve (route_post pool) request db = add_bird pool request db"
  by (simp add: serve_def route_post_def)

lemma serve_put: "serve (route_put pool) request db = update_bird pool request db"
  by (simp add: serve_def route_put_def)

lemma add_bird_rejected:
  "result (add_bird (pg_pool Birds enc) request db) =
     Responded \<lparr>status = 400, payload = JObj [(''message'', JStr ''Error: undefined'')]\<rparr> \<and>
   store (add_bird (pg_pool Birds enc) request db) = db"
  by (simp add: add_bird_def pg_insert status_send_def undefined_message)

lemma update_bird_rejected:
  "result (update_bird (pg_pool Birds enc) request db) =
     Responded \<lparr>status = 400, payload = JObj [(''message'', JStr ''Error: undefined'')]\<rparr> \<and>
   store (update_bird (pg_pool Birds enc) request db) = db"
  by (simp add: update_bird_def pg_update status_send_def undefined_message)

text \<open>
  C3. The \<^verbatim>\<open>INSERT\<close> of the create handler and the \<^verbatim>\<open>UPDATE\<close> of the update handler
  name the column \<^verbatim>\<open>habitat\<close>, which the table \<open>Birds\<close> of the schema file does not
  declare. On that table every create request and every update request is rejected by
  the store: the response is 400 with the message \<^verbatim>\<open>Error: undefined\<close>, one statement
  was issued, and the store is as it was.
\<close>

theorem create_and_update_rejected:
  "Option.bind (sql_lex insert_text) sql_parse =
     Some (InsertReturning ''birds''
       [''formatted_com_name'', ''com_name'', ''sci_name'', ''preview_photo'', ''male_breeding_photo'',
        ''male_nonbreeding_photo'', ''female_photo'', ''sound'', ''short_desc'', ''long_desc'',
        ''how_to_find'', ''habitat'', ''learn_more_link'']
       [1, 2, 3, 4, 5, 6, 7, 8, 9, 10, 11, 12, 13]) \<and>
   Option.bind (sql_lex update_text) sql_parse =
     Some (UpdateReturning ''birds''
       [(''com_name'', 1), (''sci_name'', 2), (''preview_photo'', 3), (''male_breeding_photo'', 4),
        (''male_nonbreeding_photo'', 5), (''female_photo'', 6), (''sound'', 7), (''short_desc'', 8),
        (''long_desc'', 9), (''how_to_find'', 10), (''habitat'', 11), (''learn_more_link'', 12)]
       ''formatted_com_name'' 13) \<and>
   ''habitat'' \<notin> set (column_names Birds) \<and>
   result (serve (route_post (pg_pool Birds enc)) request db) =
     Responded \<lparr>status = 400, payload = JObj [(''message'', JStr ''Error: undefined'')]\<rparr> \<and>
   map fst (issued (serve (route_post (pg_pool Birds enc)) request db)) = [insert_text] \<and>
   store (serve (route_post (pg_pool Birds enc)) request db) = db \<and>
   result (serve (route_put (pg_pool Birds enc)) request db) =
     Responded \<lparr>status = 400, payload = JObj [(''message'', JStr ''Error: undefined'')]\<rparr> \<and>
   map fst (issued (serve (route_put (pg_pool Birds enc)) request db)) = [update_text] \<and>
   store (serve (route_put (pg_pool Birds enc)) request db) = db"
  by (simp add: serve_post serve_put parse_insert_text parse_update_text habitat_not_declared
      add_bird_def update_bird_def pg_insert pg_update status_send_def undefined_message)

theorem create_and_update_rejected_witness:
  "result (serve (route_post (pg_pool Birds (\<lambda>v. []))) \<lparr>params = [], body = american_robin_body\<rparr> []) =
     Responded \<lparr>status = 400, payload = JObj [(''message'', JStr ''Error: undefined'')]\<rparr> \<and>
   store (serve (route_post (pg_pool Birds (\<lambda>v. []))) \<lparr>params = [], body = american_robin_body\<rparr> []) = [] \<and>
   result (serve (route_put (pg_pool Birds (\<lambda>v. [])))
     \<lparr>params = [(''formattedComName'', ''AmericanRobin'')], body = american_robin_body\<rparr> [american_robin]) =
     Responded \<lparr>status = 400, payload = JObj [(''message'', JStr ''Error: undefined'')]\<rparr> \<and>
   store (serve (route_put (pg_pool Birds (\<lambda>v. [])))
     \<lparr>params = [(''formattedComName'', ''AmericanRobin'')], body = american_robin_body\<rparr> [american_robin]) =
     [american_robin]"
  using
    create_and_update_rejected [where enc = "\<lambda>v. []" and db = "[]"
      and request = "\<lparr>params = [], body = american_robin_body\<rparr>"]
    create_and_update_rejected [where enc = "\<lambda>v. []" and db = "[american_robin]"
      and request = "\<lparr>params = [(''formattedComName'', ''AmericanRobin'')], body = american_robin_body\<rparr>"]
  by simp

text \<open>
  C7. The claim: an update whose key matches no stored row answers 404 and leaves the
  store unchanged. On the code, for the key \<^verbatim>\<open>NotARealBird\<close> and a store that holds the
  American robin: the store is unchanged, and the response is 400, not 404, since the
  statement is rejected for its column \<^verbatim>\<open>habitat\<close> before any row is looked at.
\<close>

theorem update_missing_key_rejected:
  "Text ''NotARealBird'' \<notin> set (keys [american_robin]) \<and>
   result (serve (route_put (pg_pool Birds enc))
     \<lparr>params = [(''formattedComName'', ''NotARealBird'')], body = american_robin_body\<rparr> [american_robin]) =
     Responded \<lparr>status = 400, payload = JObj [(''message'', JStr ''Error: undefined'')]\<rparr> \<and>
   store (serve (route_put (pg_pool Birds enc))
     \<lparr>params = [(''formattedComName'', ''NotARealBird'')], body = american_robin_body\<rparr> [american_robin]) =
     [american_robin]"
  by (simp add: serve_put update_bird_rejected keys_def robin_key)

section \<open>Properties: GET /all and DELETE / on the store\<close>

text \<open>On the store the row count of \<^verbatim>\<open>SELECT * FROM Birds\<close> is the number of stored
  rows: the list of all rows is answered with 200 when there is a row and with 404 when
  there is none, and the query is never rejected.\<close>

lemma parse_select_all:
  "Option.bind (sql_lex ''SELECT * FROM Birds'') sql_parse = Some (SelectAll ''birds'')"
  by code_simp

lemma pg_select_all:
  "pg_pool Birds enc ''SELECT * FROM Birds'' [] db =
     (Resolved \<lparr>rowCount = length db, rows = map row_json db\<rparr>, db)"
  unfolding pg_pool_def sql_run_def parse_select_all
  by (simp add: analyse_def Birds_relation)

lemma get_all_on_store:
  "serve (route_get_all (pg_pool Birds enc)) request db =
     \<lparr>result = Responded
         (if db \<noteq> [] then \<lparr>status = 200, payload = JArr (map row_json db)\<rparr>
          else \<lparr>status = 404, payload = JObj [(''message'', JStr ''No birds were found in the database'')]\<rparr>),
      console = [], issued = [(''SELECT * FROM Birds'', [])], store = db\<rparr>"
  by (cases db) (simp_all add: serve_get_all get_all_def pg_select_all send_json_def status_send_def)

text \<open>A delete request with a non-empty array of strings removes the stored rows whose
  key is among the names, and its row count is their number.\<close>

lemma delete_on_store:
  assumes "names \<noteq> []" and "js_get (body request) ''names'' = JArr (map JStr names)"
  shows "store (serve (route_delete (pg_pool Birds enc)) request db) =
       [r \<leftarrow> db. primary_key r \<notin> Text ` set names] \<and>
     result (serve (route_delete (pg_pool Birds enc)) request db) =
       Responded
         (if [r \<leftarrow> db. primary_key r \<in> Text ` set names] \<noteq> []
          then \<lparr>status = 200,
                payload = JObj [(''message'',
                   JStr (show_nat (length [r \<leftarrow> db. primary_key r \<in> Text ` set names]) @
                         '' bird(s) deleted successfully.'')),
                  (''birdNames'', JArr (map JStr names))]\<rparr>
          else \<lparr>status = 404,
                payload = JObj [(''message'', JStr ''No birds found with the provided names.''),
                                (''birdNames'', JArr (map JStr names))]\<rparr>)"
proof -
  have f: "(\<lambda>r. cell r ''formatted_com_name'' \<noteq> Null \<and> cell r ''formatted_com_name'' \<in> Text ` set names) =
      (\<lambda>r. primary_key r \<in> Text ` set names)"
    by (auto simp: primary_key_def)
  have "pg_pool Birds enc (delete_text (map JStr names)) (map JStr names) db =
     (Resolved \<lparr>rowCount = length [r \<leftarrow> db. primary_key r \<in> Text ` set names], rows = []\<rparr>,
      [r \<leftarrow> db. primary_key r \<notin> Text ` set names])"
  proof -
    have g: "(\<lambda>r. \<not> (cell r ''formatted_com_name'' \<noteq> Null \<and>
                   cell r ''formatted_com_name'' \<in> Text ` set names)) =
        (\<lambda>r. primary_key r \<notin> Text ` set names)"
      by (auto simp: primary_key_def)
    show ?thesis
      using assms(1) pg_delete_in [of "map JStr names" enc db]
      by (simp only: prepare_strings set_map f g) simp
  qed
  with assms(2) show ?thesis
    by (simp add: serve_delete delete_birds_def send_json_def status_send_def)
qed

section \<open>Properties: the same requests on a table that declares Habitat\<close>

text \<open>With the column in the table, the statements of the two handlers are accepted:
  the create request of the scenario stores the row and the lookup returns it, keyed by
  the column names; an update on a key that matches no row answers 404 and changes
  nothing.\<close>

lemma with_habitat_create_then_lookup:
  "serve (route_post (pg_pool Birds_with_habitat (\<lambda>v. []))) \<lparr>params = [], body = american_robin_body\<rparr> [] =
     \<lparr>result = Responded \<lparr>status = 200, payload = row_json american_robin_with_habitat\<rparr>,
      console = [],
      issued = [(insert_text, map (js_get american_robin_body)
        [''formattedComName'', ''comName'', ''sciName'', ''previewPhoto'', ''maleBreedingPhoto'',
         ''maleNonbreedingPhoto'', ''femalePhoto'', ''sound'', ''shortDesc'', ''longDesc'',
         ''howToFind'', ''habitat'', ''learnMoreLink''])],
      store = [american_robin_with_habitat]\<rparr> \<and>
   result (serve (route_get_by_names (pg_pool Birds_with_habitat (\<lambda>v. [])))
       \<lparr>params = [], body = [(''birds'', JArr [JStr ''AmericanRobin'']),
                             (''birdNames'', JArr [JStr ''AmericanRobin''])]\<rparr>
       [american_robin_with_habitat]) =
     Responded \<lparr>status = 200, payload = JArr [row_json american_robin_with_habitat]\<rparr>"
  by code_simp

lemma with_habitat_update_missing_key:
  "result (serve (route_put (pg_pool Birds_with_habitat (\<lambda>v. [])))
     \<lparr>params = [(''formattedComName'', ''NotARealBird'')], body = american_robin_body\<rparr>
     [american_robin_with_habitat]) =
     Responded \<lparr>status = 404, payload = JObj [(''message'', JStr ''No bird found with the provided name.'')]\<rparr> \<and>
   store (serve (route_put (pg_pool Birds_with_habitat (\<lambda>v. [])))
     \<lparr>params = [(''formattedComName'', ''NotARealBird'')], body = american_robin_body\<rparr>
     [american_robin_with_habitat]) = [american_robin_with_habitat]"
  by code_simp

text \<open>The constraints of the table are the store's to enforce: a second create request
  for the same key and a create request without \<^verbatim>\<open>comName\<close> are rejected, and the
  response carries the detail of the error.\<close>

lemma with_habitat_duplicate_key:
  "serve (route_post (pg_pool Birds_with_habitat (\<lambda>v. []))) \<lparr>params = [], body = american_robin_body\<rparr>
     [american_robin_with_habitat] =
     \<lparr>result = Responded \<lparr>status = 400,
         payload = JObj [(''message'', JStr ''Error: Key (formatted_com_name)=(AmericanRobin) already exists.'')]\<rparr>,
      console = [],
      issued = [(insert_text, map (js_get american_robin_body)
        [''formattedComName'', ''comName'', ''sciName'', ''previewPhoto'', ''maleBreedingPhoto'',
         ''maleNonbreedingPhoto'', ''femalePhoto'', ''sound'', ''shortDesc'', ''longDesc'',
         ''howToFind'', ''habitat'', ''learnMoreLink''])],
      store = [american_robin_with_habitat]\<rparr>"
  by code_simp

lemma with_habitat_missing_com_name:
  "result (serve (route_post (pg_pool Birds_with_habitat (\<lambda>v. [])))
     \<lparr>params = [], body = [(''formattedComName'', JStr ''AmericanRobin'')]\<rparr> []) =
     Responded \<lparr>status = 400,
       payload = JObj [(''message'', JStr (''Error: Failing row contains (AmericanRobin, null, null, null, '' @
         ''null, null, null, null, null, null, null, null, null).''))]\<rparr> \<and>
   store (serve (route_post (pg_pool Birds_with_habitat (\<lambda>v. [])))
     \<lparr>params = [], body = [(''formattedComName'', JStr ''AmericanRobin'')]\<rparr> []) = []"
  by code_simp

section \<open>Properties: create, then lookup\<close>


















text \<open>On the table of the schema file the condition of the round trip is never met.\<close>

lemma no_create_on_schema_table:
  "result (serve (route_post (pg_pool Birds enc)) request db) \<noteq> Responded \<lparr>status = 200, payload = v\<rparr>"
  using add_bird_rejected [of enc request db] by (simp add: serve_post)

end
